theory Spec2Isabelle
  imports Main "HOL-Library.Sublist" "HOL-Library.AList"
begin

section \<open>Python values\<close>

text \<open>
  The gateway of \<^verbatim>\<open>mcp_database_server.py\<close> handles untyped Python values: the raw
  request is a \<^verbatim>\<open>Dict[str, Any]\<close>, the handlers return lists of row dictionaries or
  summary dictionaries, and the response is a dictionary again. \<open>pyval\<close> is the part of
  Python's value universe the program touches. \<open>PObj c s\<close> is an object of a
  driver-native class \<open>c\<close> (an \<^verbatim>\<open>ObjectId\<close>, a \<^verbatim>\<open>datetime\<close>) whose \<^verbatim>\<open>str()\<close> is \<open>s\<close>;
  it has no string or mapping methods and the default truthiness. A dictionary is an
  association list with string keys, read left to right. A string is the list of the
  bytes of its UTF-8 encoding, so a character below 128 is an ASCII character and any
  other belongs to a non-ASCII code point. Floats are not modelled (no decision of the
  program depends on one).
\<close>

datatype pyval =
    PNone
  | PBool bool
  | PInt int
  | PStr string
  | PList "pyval list"
  | PDict "(string \<times> pyval) list"
  | PObj string string

type_synonym pydict = "(string \<times> pyval) list"

text \<open>Python's truth value testing, as used by \<^verbatim>\<open>if x:\<close>, \<^verbatim>\<open>x and y\<close>, \<^verbatim>\<open>x or y\<close>, \<^verbatim>\<open>not x\<close>.\<close>

fun truthy :: "pyval \<Rightarrow> bool" where
  "truthy PNone = False"
| "truthy (PBool b) = b"
| "truthy (PInt i) = (i \<noteq> 0)"
| "truthy (PStr s) = (s \<noteq> [])"
| "truthy (PList xs) = (xs \<noteq> [])"
| "truthy (PDict kvs) = (kvs \<noteq> [])"
| "truthy (PObj c s) = True"

fun type_name :: "pyval \<Rightarrow> string" where
  "type_name PNone = ''NoneType''"
| "type_name (PBool b) = ''bool''"
| "type_name (PInt i) = ''int''"
| "type_name (PStr s) = ''str''"
| "type_name (PList xs) = ''list''"
| "type_name (PDict kvs) = ''dict''"
| "type_name (PObj c s) = c"

text \<open>\<^verbatim>\<open>d.get(k, default)\<close> on a dictionary.\<close>

definition dict_get :: "pydict \<Rightarrow> string \<Rightarrow> pyval \<Rightarrow> pyval" where
  "dict_get d k dflt = (case map_of d k of None \<Rightarrow> dflt | Some v \<Rightarrow> v)"

section \<open>Exceptions\<close>

text \<open>
  Every \<^verbatim>\<open>raise\<close> of the source, and every exception of the interpreter or of a
  library that the source can meet, is a value. Only subclasses of \<^verbatim>\<open>Exception\<close> are
  modelled: that is what the \<^verbatim>\<open>except Exception\<close> clauses of the source catch.
  \<open>LibraryError c m\<close> is an exception of class \<open>c\<close> raised inside an external
  library (a database driver, the cache client, the serialiser, the file system) with
  message \<open>m\<close>.
\<close>

datatype exn =
    AttributeError string
  | KeyError string
  | ValueError string
  | RuntimeError string
  | TypeError string
  | LibraryError string string

definition quote :: char where
  "quote = CHR 0x27"

text \<open>\<^verbatim>\<open>str(e)\<close>: the message; for a \<^verbatim>\<open>KeyError\<close> it is the \<^verbatim>\<open>repr\<close> of the missing key.\<close>

fun exn_str :: "exn \<Rightarrow> string" where
  "exn_str (AttributeError m) = m"
| "exn_str (KeyError k) = quote # k @ [quote]"
| "exn_str (ValueError m) = m"
| "exn_str (RuntimeError m) = m"
| "exn_str (TypeError m) = m"
| "exn_str (LibraryError c m) = m"

text \<open>The exception of \<^verbatim>\<open>v.name\<close> when \<open>v\<close> has no attribute \<open>name\<close>.\<close>

definition no_attribute :: "pyval \<Rightarrow> string \<Rightarrow> exn" where
  "no_attribute v name =
     AttributeError (quote # type_name v @ [quote] @ '' object has no attribute ''
                     @ quote # name @ [quote])"

section \<open>The runtime environment\<close>

text \<open>
  The module-level import guards: each flag records whether the import of the client
  library succeeded when the module was loaded. \<^verbatim>\<open>MYSQL_DRIVER\<close> is \<^verbatim>\<open>'pymysql'\<close>
  exactly when \<open>MYSQL_AVAILABLE\<close>, and the names \<^verbatim>\<open>psycopg2\<close> and \<^verbatim>\<open>pymongo\<close> are
  bound exactly when \<open>POSTGRESQL_AVAILABLE\<close> and \<open>MONGODB_AVAILABLE\<close>.
\<close>

record modules =
  REDIS_AVAILABLE :: bool
  POSTGRESQL_AVAILABLE :: bool
  RealDictCursor_found :: bool
  MYSQL_AVAILABLE :: bool
  MONGODB_AVAILABLE :: bool

text \<open>
  What a database driver answers is not decided by this program: each driver is a
  record of functions giving the outcome of every call the handlers make. A cursor
  is what \<^verbatim>\<open>cursor.execute\<close> leaves behind: the rows \<^verbatim>\<open>fetchall\<close> would return (or the
  exception it would raise), \<^verbatim>\<open>description\<close> (the column names, \<^verbatim>\<open>None\<close> when the
  statement produced no result set), \<^verbatim>\<open>rowcount\<close> and \<^verbatim>\<open>lastrowid\<close>. The rows of
  \<^verbatim>\<open>sqlite3.Row\<close> and \<^verbatim>\<open>RealDictCursor\<close> are mappings; those of \<^verbatim>\<open>pymysql\<close> are tuples.
\<close>

record 'row cursor =
  description :: "string list option"
  fetchall :: "exn + 'row list"
  rowcount :: pyval
  lastrowid :: pyval

record 'row sql_driver =
  drv_connect :: "pyval list \<Rightarrow> exn option"
  drv_execute :: "pyval \<Rightarrow> pyval \<Rightarrow> exn + 'row cursor"
  drv_commit :: "exn option"

record mongo_driver =
  mongo_client :: "string \<Rightarrow> exn option"
  mongo_database :: "pyval \<Rightarrow> exn option"
  mongo_find :: "pyval \<Rightarrow> pyval \<Rightarrow> exn + pydict list"
  mongo_insert_one :: "pyval \<Rightarrow> pyval \<Rightarrow> exn + pyval"
  mongo_update_many :: "pyval \<Rightarrow> pyval \<Rightarrow> pyval \<Rightarrow> exn + pyval \<times> pyval"
  mongo_delete_many :: "pyval \<Rightarrow> pyval \<Rightarrow> exn + pyval"

text \<open>
  The runtime environment of one call. Beside the import flags and the drivers it holds
  what the interpreter and its libraries answer:
  \<^item> \<open>stat_mtime\<close>: \<^verbatim>\<open>str(Path(__file__).stat().st_mtime)\<close>, read again at every call;
    \<^verbatim>\<open>stat\<close> raises an \<^verbatim>\<open>OSError\<close> when the source file cannot be examined, and the
    outcome is the same for the reads of one call;
  \<^item> \<open>json_dumps\<close> and \<open>json_loads\<close>: \<^verbatim>\<open>json.dumps(data, default=str)\<close> and
    \<^verbatim>\<open>json.loads\<close>;
  \<^item> \<open>unicode_lower\<close>: \<^verbatim>\<open>str.lower()\<close> on a string that has non-ASCII characters;
  \<^item> \<open>repr_other\<close>: \<^verbatim>\<open>str()\<close> of a list or a dictionary;
  \<^item> \<open>makedirs_dirname\<close>: \<^verbatim>\<open>os.makedirs(os.path.dirname(db_path), exist_ok=True)\<close>.
\<close>

record env =
  mods :: modules
  stat_mtime :: "exn + string"
  json_dumps :: "pyval \<Rightarrow> exn + string"
  json_loads :: "string \<Rightarrow> exn + pyval"
  unicode_lower :: "string \<Rightarrow> string"
  repr_other :: "pyval \<Rightarrow> string"
  makedirs_dirname :: "pyval \<Rightarrow> exn option"
  sqlite3 :: "pydict sql_driver"
  psycopg2 :: "pydict sql_driver"
  pymysql :: "pyval list sql_driver"
  pymongo :: mongo_driver

section \<open>Strings\<close>

text \<open>
  \<^verbatim>\<open>str.lower()\<close>. On a string of ASCII characters it maps \<^verbatim>\<open>A\<close> to \<^verbatim>\<open>Z\<close> onto \<^verbatim>\<open>a\<close>
  to \<^verbatim>\<open>z\<close> and leaves the rest; on any other string it is what the interpreter's
  Unicode tables give.
\<close>

definition ascii :: "char \<Rightarrow> bool" where
  "ascii c = (\<not> digit7 c)"

definition lower_char :: "char \<Rightarrow> char" where
  "lower_char c =
     (case map_of (zip ''ABCDEFGHIJKLMNOPQRSTUVWXYZ'' ''abcdefghijklmnopqrstuvwxyz'') c of
        None \<Rightarrow> c
      | Some d \<Rightarrow> d)"

definition lower :: "env \<Rightarrow> string \<Rightarrow> string" where
  "lower E s = (if list_all ascii s then map lower_char s else unicode_lower E s)"

text \<open>\<^verbatim>\<open>v.lower()\<close> on an arbitrary value: only a \<^verbatim>\<open>str\<close> has the method.\<close>

fun call_lower :: "env \<Rightarrow> pyval \<Rightarrow> exn + string" where
  "call_lower E (PStr s) = Inr (lower E s)"
| "call_lower E v = Inl (no_attribute v ''lower'')"

text \<open>\<^verbatim>\<open>s.startswith(p)\<close>.\<close>

definition startswith :: "string \<Rightarrow> string \<Rightarrow> bool" where
  "startswith s p = prefix p s"

text \<open>
  Decimal notation: \<^verbatim>\<open>str(i)\<close> of an integer, and the reading of a text as an integer
  by a server that accepts the canonical notation only (no sign \<^verbatim>\<open>+\<close>, no leading
  zeros, no blanks).
\<close>

definition digit_char :: "nat \<Rightarrow> char" where
  "digit_char d = ''0123456789'' ! d"

fun nat_str :: "nat \<Rightarrow> string" where
  "nat_str n = (if n < 10 then [digit_char n] else nat_str (n div 10) @ [digit_char (n mod 10)])"

declare nat_str.simps [simp del]

definition int_str :: "int \<Rightarrow> string" where
  "int_str i = (if i < 0 then CHR ''-'' # nat_str (nat (- i)) else nat_str (nat i))"

definition digit_val :: "char \<Rightarrow> nat" where
  "digit_val c = (case map_of (zip ''0123456789'' [0, 1, 2, 3, 4, 5, 6, 7, 8, 9]) c of
                    None \<Rightarrow> 0
                  | Some d \<Rightarrow> d)"

definition str_nat :: "string \<Rightarrow> nat" where
  "str_nat s = foldl (\<lambda>a c. 10 * a + digit_val c) 0 s"

definition str_int :: "string \<Rightarrow> int option" where
  "str_int s =
     (let i = (case s of
                 [] \<Rightarrow> 0
               | c # r \<Rightarrow> if c = CHR ''-'' then - int (str_nat r) else int (str_nat s))
      in if int_str i = s then Some i else None)"

text \<open>\<^verbatim>\<open>str(v)\<close>, as used by the f-strings and by the identifier conversion.\<close>

fun py_str :: "env \<Rightarrow> pyval \<Rightarrow> string" where
  "py_str E (PStr s) = s"
| "py_str E (PObj c s) = s"
| "py_str E PNone = ''None''"
| "py_str E (PBool b) = (if b then ''True'' else ''False'')"
| "py_str E (PInt i) = int_str i"
| "py_str E v = repr_other E v"

section \<open>Requests\<close>

text \<open>
  The dataclass \<^verbatim>\<open>DatabaseRequest\<close>. Its annotations are not enforced: apart from
  \<open>db_type\<close>, which is the result of \<^verbatim>\<open>.lower()\<close> and so a string, each field holds
  whatever value the raw request carried.
\<close>

record request =
  db_type :: string
  operation :: pyval
  query :: pyval
  parameters :: pyval
  cache_key :: pyval

text \<open>
  \<^verbatim>\<open>_parse_request\<close>. \<^verbatim>\<open>request_data.get('db_type', '').lower()\<close> raises when the
  value is not a string; the other four are plain \<^verbatim>\<open>.get\<close> calls, with \<^verbatim>\<open>None\<close> as
  default where none is given.
\<close>

definition parse_request :: "env \<Rightarrow> pydict \<Rightarrow> exn + request" where
  "parse_request E request_data =
     (case call_lower E (dict_get request_data ''db_type'' (PStr '''')) of
        Inl e \<Rightarrow> Inl e
      | Inr t \<Rightarrow>
          Inr \<lparr> db_type = t,
                operation = dict_get request_data ''operation'' (PStr ''''),
                query = dict_get request_data ''query'' PNone,
                parameters = dict_get request_data ''parameters'' (PDict []),
                cache_key = dict_get request_data ''cache_key'' PNone \<rparr>)"

section \<open>Configuration and server\<close>

text \<open>
  \<^verbatim>\<open>self.config\<close> is a dictionary of sections, each section a dictionary.
  \<open>subscript\<close> is \<^verbatim>\<open>d[k]\<close>, which raises \<^verbatim>\<open>KeyError\<close> on a missing key.
\<close>

type_synonym config = "(string \<times> pydict) list"

definition subscript :: "(string \<times> 'a) list \<Rightarrow> string \<Rightarrow> exn + 'a" where
  "subscript d k = (case map_of d k of None \<Rightarrow> Inl (KeyError k) | Some v \<Rightarrow> Inr v)"

text \<open>\<^verbatim>\<open>self.config[section][key]\<close>.\<close>

definition config_item :: "config \<Rightarrow> string \<Rightarrow> string \<Rightarrow> exn + pyval" where
  "config_item c section k =
     (case subscript c section of Inl e \<Rightarrow> Inl e | Inr sec \<Rightarrow> subscript sec k)"

text \<open>\<^verbatim>\<open>_load_default_config\<close>.\<close>

definition load_default_config :: "modules \<Rightarrow> config" where
  "load_default_config m =
     [(''sqlite'', [(''enabled'', PBool True), (''db_path'', PStr ''./data/app.db'')]),
      (''postgresql'', [(''enabled'', PBool (POSTGRESQL_AVAILABLE m)),
                        (''host'', PStr ''localhost''), (''port'', PInt 5432),
                        (''database'', PStr ''mcp_db''), (''user'', PStr ''postgres''),
                        (''password'', PStr ''password'')]),
      (''mysql'', [(''enabled'', PBool (MYSQL_AVAILABLE m)),
                   (''host'', PStr ''localhost''), (''port'', PInt 3306),
                   (''database'', PStr ''mcp_db''), (''user'', PStr ''root''),
                   (''password'', PStr ''password'')]),
      (''mongodb'', [(''enabled'', PBool (MONGODB_AVAILABLE m)),
                     (''host'', PStr ''localhost''), (''port'', PInt 27017),
                     (''database'', PStr ''mcp_db'')]),
      (''redis'', [(''enabled'', PBool (REDIS_AVAILABLE m)),
                   (''host'', PStr ''localhost''), (''port'', PInt 6379),
                   (''ttl'', PInt 3600)])]"

text \<open>
  The state of an \<^verbatim>\<open>MCPDatabaseServer\<close> after construction: its configuration and
  whether \<^verbatim>\<open>self.redis_client\<close> holds a client (\<open>True\<close>) or \<^verbatim>\<open>None\<close>.
\<close>

record server =
  config :: config
  redis_client :: bool

section \<open>The cache store and the connections\<close>

text \<open>
  The Redis server, as far as the gateway meets it: whether it answers at all, whether
  it accepts writes (it is not a read-only replica and has memory left), the largest
  expire time it accepts, and its entries, each a time-to-live in seconds and a text.
  Expiry happens outside this program.
\<close>

record redis_server =
  redis_up :: bool
  redis_writable :: bool
  redis_max_expire :: int
  redis_store :: "string \<rightharpoonup> int \<times> string"

text \<open>
  The mutable part of the world: the calls made on database connections so far, and the
  Redis server.
\<close>

datatype db_call = Connect | Execute pyval pyval | Fetchall | Commit | Rollback | Close

record world =
  db_calls :: "db_call list"
  redis :: redis_server

text \<open>
  The client of \<^verbatim>\<open>redis-py\<close> encodes every argument of a command: a string is sent as
  it is, an integer in decimal notation, and a boolean, \<^verbatim>\<open>None\<close>, a list, a dictionary
  or another object is refused with a \<^verbatim>\<open>DataError\<close>. So the keys \<^verbatim>\<open>5\<close> and \<^verbatim>\<open>"5"\<close> name
  the same entry.
\<close>

fun redis_encode :: "pyval \<Rightarrow> string option" where
  "redis_encode (PStr s) = Some s"
| "redis_encode (PInt i) = Some (int_str i)"
| "redis_encode v = None"

text \<open>\<^verbatim>\<open>self.redis_client.get(cache_key)\<close>, with \<^verbatim>\<open>decode_responses=True\<close>.\<close>

definition redis_get :: "world \<Rightarrow> pyval \<Rightarrow> exn + string option" where
  "redis_get w key =
     (case redis_encode key of
        None \<Rightarrow> Inl (LibraryError ''DataError'' ''Invalid input'')
      | Some k \<Rightarrow>
          if \<not> redis_up (redis w)
          then Inl (LibraryError ''ConnectionError'' ''Connection refused'')
          else Inr (map_option snd (redis_store (redis w) k)))"

text \<open>
  \<^verbatim>\<open>self.redis_client.setex(cache_key, ttl, text)\<close>. The expire time reaches the server
  in decimal notation when it is an integer and as it is when it is a string; the
  server reads it as an integer and refuses one that is not positive or is beyond its
  range.
\<close>

fun expire_seconds :: "pyval \<Rightarrow> int option" where
  "expire_seconds (PInt n) = Some n"
| "expire_seconds (PStr s) = str_int s"
| "expire_seconds v = None"

definition redis_setex :: "world \<Rightarrow> pyval \<Rightarrow> pyval \<Rightarrow> string \<Rightarrow> exn + world" where
  "redis_setex w key ttl txt =
     (case (redis_encode key, redis_encode ttl) of
        (Some k, Some t) \<Rightarrow>
          if \<not> redis_up (redis w)
          then Inl (LibraryError ''ConnectionError'' ''Connection refused'')
          else if \<not> redis_writable (redis w)
          then Inl (LibraryError ''ResponseError'' ''write refused'')
          else (case expire_seconds ttl of
                  None \<Rightarrow> Inl (LibraryError ''ResponseError''
                                  ''value is not an integer or out of range'')
                | Some n \<Rightarrow>
                    if 0 < n \<and> n \<le> redis_max_expire (redis w)
                    then Inr (w\<lparr>redis := (redis w)\<lparr>redis_store :=
                                 (redis_store (redis w))(k \<mapsto> (n, txt))\<rparr>\<rparr>)
                    else Inl (LibraryError ''ResponseError'' ''invalid expire time''))
      | _ \<Rightarrow> Inl (LibraryError ''DataError'' ''Invalid input''))"

text \<open>
  \<^verbatim>\<open>__init__\<close>: \<^verbatim>\<open>config or self._load_default_config()\<close>, then the cache client,
  kept only when the library is present, the \<^verbatim>\<open>redis\<close> section (if any) says
  \<^verbatim>\<open>enabled\<close>, and the \<^verbatim>\<open>ping\<close> succeeds.
\<close>

definition init_server :: "modules \<Rightarrow> config option \<Rightarrow> world \<Rightarrow> server" where
  "init_server m cfg w =
     (let c = (case cfg of None \<Rightarrow> load_default_config m
                         | Some c' \<Rightarrow> if c' = [] then load_default_config m else c')
      in \<lparr> config = c,
            redis_client =
              (REDIS_AVAILABLE m
               \<and> truthy (dict_get (case map_of c ''redis'' of None \<Rightarrow> [] | Some sec \<Rightarrow> sec)
                                  ''enabled'' (PBool False))
               \<and> redis_up (redis w)) \<rparr>)"

section \<open>Effects\<close>

text \<open>
  A computation reads and updates the world and ends with a value or an exception.
  An exception keeps the world as it was when it was raised.
\<close>

type_synonym 'a io = "world \<Rightarrow> (exn + 'a) \<times> world"

definition io_return :: "'a \<Rightarrow> 'a io" where
  "io_return v = (\<lambda>w. (Inr v, w))"

definition io_raise :: "exn \<Rightarrow> 'a io" where
  "io_raise e = (\<lambda>w. (Inl e, w))"

definition io_lift :: "exn + 'a \<Rightarrow> 'a io" where
  "io_lift r = (\<lambda>w. (r, w))"

definition io_bind :: "'a io \<Rightarrow> ('a \<Rightarrow> 'b io) \<Rightarrow> 'b io" where
  "io_bind m f = (\<lambda>w. case m w of (Inl e, w') \<Rightarrow> (Inl e, w') | (Inr v, w') \<Rightarrow> f v w')"

text \<open>A call on a connection: it is recorded, then it succeeds or raises.\<close>

definition db_do :: "db_call \<Rightarrow> exn option \<Rightarrow> unit io" where
  "db_do c outcome =
     (\<lambda>w. ((case outcome of None \<Rightarrow> Inr () | Some e \<Rightarrow> Inl e),
           w\<lparr>db_calls := db_calls w @ [c]\<rparr>))"

text \<open>\<^verbatim>\<open>try: body finally: conn.close()\<close>: the connection is closed on every exit path.\<close>

definition finally_close :: "'a io \<Rightarrow> 'a io" where
  "finally_close body =
     (\<lambda>w. case body w of (r, w') \<Rightarrow> (r, w'\<lparr>db_calls := db_calls w' @ [Close]\<rparr>))"

definition io_check :: "exn option \<Rightarrow> unit io" where
  "io_check outcome = io_lift (case outcome of None \<Rightarrow> Inr () | Some e \<Rightarrow> Inl e)"

definition db_execute :: "'row sql_driver \<Rightarrow> pyval \<Rightarrow> pyval \<Rightarrow> 'row cursor io" where
  "db_execute drv q ps =
     (\<lambda>w. (drv_execute drv q ps, w\<lparr>db_calls := db_calls w @ [Execute q ps]\<rparr>))"

definition db_fetchall :: "'row cursor \<Rightarrow> 'row list io" where
  "db_fetchall cur = (\<lambda>w. (fetchall cur, w\<lparr>db_calls := db_calls w @ [Fetchall]\<rparr>))"

text \<open>
  \<^verbatim>\<open>with sqlite3.connect(db_path) as conn:\<close> the connection's context manager commits
  when the block ends normally and rolls back when it ends with an exception.
\<close>

definition with_connection :: "'row sql_driver \<Rightarrow> 'a io \<Rightarrow> 'a io" where
  "with_connection drv body =
     (\<lambda>w. case body w of
            (Inl e, w') \<Rightarrow> (Inl e, w'\<lparr>db_calls := db_calls w' @ [Rollback]\<rparr>)
          | (Inr v, w') \<Rightarrow>
              (case db_do Commit (drv_commit drv) w' of
                 (Inl e, w'') \<Rightarrow> (Inl e, w'')
               | (Inr u, w'') \<Rightarrow> (Inr v, w'')))"

section \<open>Backend handlers\<close>

text \<open>
  The condition that the three relational handlers test,
  \<^verbatim>\<open>request.operation.lower() == 'select' or request.query.lower().startswith('select')\<close>:
  \<^verbatim>\<open>or\<close> does not evaluate its right operand when the left one holds, and \<^verbatim>\<open>.lower()\<close>
  raises on a value that is not a string.
\<close>

definition is_select :: "env \<Rightarrow> request \<Rightarrow> exn + bool" where
  "is_select E request =
     (case call_lower E (operation request) of
        Inl e \<Rightarrow> Inl e
      | Inr op \<Rightarrow>
          if op = ''select'' then Inr True
          else (case call_lower E (query request) of
                  Inl e \<Rightarrow> Inl e
                | Inr q \<Rightarrow> Inr (startswith q ''select'')))"

text \<open>\<^verbatim>\<open>a or b\<close> as a value.\<close>

definition py_or :: "pyval \<Rightarrow> pyval \<Rightarrow> pyval" where
  "py_or a b = (if truthy a then a else b)"

text \<open>\<^verbatim>\<open>_handle_sqlite\<close>.\<close>

definition handle_sqlite :: "server \<Rightarrow> env \<Rightarrow> request \<Rightarrow> pyval io" where
  "handle_sqlite srv E request =
     io_bind (io_lift (config_item (config srv) ''sqlite'' ''enabled'')) (\<lambda>enabled.
       if \<not> truthy enabled then io_raise (RuntimeError ''SQLite not enabled'')
       else
         io_bind (io_lift (config_item (config srv) ''sqlite'' ''db_path'')) (\<lambda>db_path.
         io_bind (io_check (makedirs_dirname E db_path)) (\<lambda>u.
         io_bind (db_do Connect (drv_connect (sqlite3 E) [db_path])) (\<lambda>u.
         with_connection (sqlite3 E)
           (io_bind (io_lift (is_select E request)) (\<lambda>sel.
              if sel then
                io_bind (db_execute (sqlite3 E) (query request)
                           (py_or (parameters request) (PList []))) (\<lambda>cur.
                io_bind (db_fetchall cur) (\<lambda>rows.
                io_return (PList (map PDict rows))))
              else
                io_bind (db_execute (sqlite3 E) (query request)
                           (py_or (parameters request) (PList []))) (\<lambda>cur.
                io_bind (db_do Commit (drv_commit (sqlite3 E))) (\<lambda>u.
                io_return (PDict [(''affected_rows'', rowcount cur),
                                  (''lastrowid'', lastrowid cur)])))))))))"

text \<open>
  \<^verbatim>\<open>_handle_postgresql\<close>. The test \<^verbatim>\<open>'psycopg2' not in globals() or psycopg2 is None\<close>
  is the negation of \<open>POSTGRESQL_AVAILABLE\<close>. The query is executed before the
  read-or-write condition is evaluated.
\<close>

definition handle_postgresql :: "server \<Rightarrow> env \<Rightarrow> request \<Rightarrow> pyval io" where
  "handle_postgresql srv E request =
     io_bind (if \<not> POSTGRESQL_AVAILABLE (mods E) then io_return (PBool False)
              else io_lift (config_item (config srv) ''postgresql'' ''enabled'')) (\<lambda>enabled.
       if \<not> truthy enabled then io_raise (RuntimeError ''PostgreSQL not available or not enabled'')
       else if \<not> POSTGRESQL_AVAILABLE (mods E)
         then io_raise (RuntimeError ''psycopg2 library is not available'')
       else if \<not> RealDictCursor_found (mods E)
         then io_raise (RuntimeError ''psycopg2.extras.RealDictCursor is not available. Please install the correct psycopg2 version.'')
       else
         io_bind (io_lift (subscript (config srv) ''postgresql'')) (\<lambda>c.
         io_bind (io_lift (subscript c ''host'')) (\<lambda>host.
         io_bind (io_lift (subscript c ''port'')) (\<lambda>port.
         io_bind (io_lift (subscript c ''database'')) (\<lambda>database.
         io_bind (io_lift (subscript c ''user'')) (\<lambda>user.
         io_bind (io_lift (subscript c ''password'')) (\<lambda>password.
         io_bind (db_do Connect (drv_connect (psycopg2 E)
                                   [host, port, database, user, password])) (\<lambda>u.
         finally_close
           (io_bind (db_execute (psycopg2 E) (query request) (parameters request)) (\<lambda>cur.
            io_bind (io_lift (is_select E request)) (\<lambda>sel.
              if sel then
                io_bind (db_fetchall cur) (\<lambda>rows.
                io_return (PList (map PDict rows)))
              else
                io_bind (db_do Commit (drv_commit (psycopg2 E))) (\<lambda>u.
                io_return (PDict [(''affected_rows'', rowcount cur)])))))))))))))"

text \<open>
  \<^verbatim>\<open>dict(zip(columns, row))\<close>: \<^verbatim>\<open>zip\<close> stops at the shorter sequence, and a key that
  comes again keeps its place and takes the later value.
\<close>

definition dict_of_pairs :: "(string \<times> pyval) list \<Rightarrow> pydict" where
  "dict_of_pairs ps = foldl (\<lambda>d (k, v). AList.update k v d) [] ps"

text \<open>
  \<^verbatim>\<open>_handle_mysql\<close>. \<^verbatim>\<open>MYSQL_DRIVER == 'pymysql'\<close> holds exactly when
  \<open>MYSQL_AVAILABLE\<close>, and the second \<^verbatim>\<open>import pymysql\<close> then finds the loaded module.
  Iterating over \<^verbatim>\<open>cursor.description\<close> raises when it is \<^verbatim>\<open>None\<close>.
\<close>

definition handle_mysql :: "server \<Rightarrow> env \<Rightarrow> request \<Rightarrow> pyval io" where
  "handle_mysql srv E request =
     io_bind (if \<not> MYSQL_AVAILABLE (mods E) then io_return (PBool False)
              else io_lift (config_item (config srv) ''mysql'' ''enabled'')) (\<lambda>enabled.
       if \<not> truthy enabled then io_raise (RuntimeError ''MySQL not available or not enabled'')
       else
         io_bind (io_lift (subscript (config srv) ''mysql'')) (\<lambda>c.
         if \<not> MYSQL_AVAILABLE (mods E)
           then io_raise (RuntimeError (''No suitable MySQL driver found. Only '' @ quote # ''pymysql'' @ quote
                                   # '' is supported in this configuration.''))
         else
           io_bind (io_lift (subscript c ''host'')) (\<lambda>host.
           io_bind (io_lift (subscript c ''port'')) (\<lambda>port.
           io_bind (io_lift (subscript c ''user'')) (\<lambda>user.
           io_bind (io_lift (subscript c ''password'')) (\<lambda>password.
           io_bind (io_lift (subscript c ''database'')) (\<lambda>database.
           io_bind (db_do Connect (drv_connect (pymysql E)
                                     [host, port, user, password, database])) (\<lambda>u.
           finally_close
             (io_bind (db_execute (pymysql E) (query request) (parameters request)) (\<lambda>cur.
              io_bind (io_lift (is_select E request)) (\<lambda>sel.
                if sel then
                  io_bind (io_lift (case description cur of
                                      None \<Rightarrow> Inl (TypeError (quote # ''NoneType'' @ [quote]
                                                                @ '' object is not iterable''))
                                    | Some cols \<Rightarrow> Inr cols)) (\<lambda>columns.
                  io_bind (db_fetchall cur) (\<lambda>rows.
                  io_return (PList (map (\<lambda>row. PDict (dict_of_pairs (zip columns row))) rows))))
                else
                  io_bind (db_do Commit (drv_commit (pymysql E))) (\<lambda>u.
                  io_return (PDict [(''affected_rows'', rowcount cur)])))))))))))))"

text \<open>\<^verbatim>\<open>v.get(k, default)\<close> on an arbitrary value: only a dictionary has the method.\<close>

fun call_get :: "pyval \<Rightarrow> string \<Rightarrow> pyval \<Rightarrow> exn + pyval" where
  "call_get (PDict d) k dflt = Inr (dict_get d k dflt)"
| "call_get v k dflt = Inl (no_attribute v ''get'')"

text \<open>
  The loop of the \<^verbatim>\<open>find\<close> branch:
  \<^verbatim>\<open>if '_id' in doc: doc['_id'] = str(doc['_id'])\<close>.
\<close>

definition stringify_id :: "env \<Rightarrow> pydict \<Rightarrow> pydict" where
  "stringify_id E doc =
     (case map_of doc ''_id'' of
        None \<Rightarrow> doc
      | Some i \<Rightarrow> AList.update ''_id'' (PStr (py_str E i)) doc)"

text \<open>
  \<^verbatim>\<open>_handle_mongodb\<close>. The test \<^verbatim>\<open>'pymongo' not in globals() or pymongo is None\<close> is
  the negation of \<open>MONGODB_AVAILABLE\<close>. The operation is compared with \<^verbatim>\<open>==\<close>, as it
  was received.
\<close>

definition handle_mongodb :: "server \<Rightarrow> env \<Rightarrow> request \<Rightarrow> pyval io" where
  "handle_mongodb srv E request =
     io_bind (if \<not> MONGODB_AVAILABLE (mods E) then io_return (PBool False)
              else io_lift (config_item (config srv) ''mongodb'' ''enabled'')) (\<lambda>enabled.
       if \<not> truthy enabled then io_raise (RuntimeError ''MongoDB not available or not enabled'')
       else if \<not> MONGODB_AVAILABLE (mods E)
         then io_raise (RuntimeError ''pymongo library is not available'')
       else
         io_bind (io_lift (subscript (config srv) ''mongodb'')) (\<lambda>c.
         io_bind (io_lift (subscript c ''host'')) (\<lambda>host.
         io_bind (io_lift (subscript c ''port'')) (\<lambda>port.
         io_bind (db_do Connect (mongo_client (pymongo E)
                    (''mongodb://'' @ py_str E host @ '':'' @ py_str E port))) (\<lambda>u.
         finally_close
           (io_bind (io_lift (subscript c ''database'')) (\<lambda>database.
            io_bind (io_check (mongo_database (pymongo E) database)) (\<lambda>u.
            if operation request = PStr ''find'' then
              io_bind (io_lift (call_get (parameters request) ''collection'' (PStr ''default''))) (\<lambda>collection.
              io_bind (io_lift (call_get (parameters request) ''query'' (PDict []))) (\<lambda>q.
              io_bind (io_lift (mongo_find (pymongo E) collection q)) (\<lambda>result.
              io_return (PList (map (\<lambda>doc. PDict (stringify_id E doc)) result)))))
            else if operation request = PStr ''insert'' then
              io_bind (io_lift (call_get (parameters request) ''collection'' (PStr ''default''))) (\<lambda>collection.
              io_bind (io_lift (call_get (parameters request) ''document'' (PDict []))) (\<lambda>document.
              io_bind (io_lift (mongo_insert_one (pymongo E) collection document)) (\<lambda>inserted_id.
              io_return (PDict [(''inserted_id'', PStr (py_str E inserted_id))]))))
            else if operation request = PStr ''update'' then
              io_bind (io_lift (call_get (parameters request) ''collection'' (PStr ''default''))) (\<lambda>collection.
              io_bind (io_lift (call_get (parameters request) ''query'' (PDict []))) (\<lambda>q.
              io_bind (io_lift (call_get (parameters request) ''update'' (PDict []))) (\<lambda>upd.
              io_bind (io_lift (mongo_update_many (pymongo E) collection q upd)) (\<lambda>(matched, modified).
              io_return (PDict [(''matched_count'', matched), (''modified_count'', modified)])))))
            else if operation request = PStr ''delete'' then
              io_bind (io_lift (call_get (parameters request) ''collection'' (PStr ''default''))) (\<lambda>collection.
              io_bind (io_lift (call_get (parameters request) ''query'' (PDict []))) (\<lambda>q.
              io_bind (io_lift (mongo_delete_many (pymongo E) collection q)) (\<lambda>deleted.
              io_return (PDict [(''deleted_count'', deleted)]))))
            else
              io_raise (ValueError (''Unsupported MongoDB operation: ''
                                    @ py_str E (operation request)))))))))))"

section \<open>Router\<close>

text \<open>\<^verbatim>\<open>_route_request\<close>.\<close>

definition route_request :: "server \<Rightarrow> env \<Rightarrow> request \<Rightarrow> pyval io" where
  "route_request srv E request =
     (if db_type request = ''sqlite'' then handle_sqlite srv E request
      else if db_type request = ''postgresql'' then handle_postgresql srv E request
      else if db_type request = ''mysql'' then handle_mysql srv E request
      else if db_type request = ''mongodb'' then handle_mongodb srv E request
      else io_raise (ValueError (''Unsupported database type: '' @ db_type request)))"

section \<open>Cache adapter\<close>

text \<open>
  \<^verbatim>\<open>_check_cache\<close>: the value stored under the key, deserialised; \<^verbatim>\<open>None\<close> when
  there is no client, no entry, an empty entry, or when the lookup or the
  deserialisation raises. It never raises and leaves the world as it is.
\<close>

definition check_cache :: "server \<Rightarrow> env \<Rightarrow> pyval \<Rightarrow> pyval io" where
  "check_cache srv E key =
     (\<lambda>w. if \<not> redis_client srv then (Inr PNone, w)
          else (case redis_get w key of
                  Inl e \<Rightarrow> (Inr PNone, w)
                | Inr None \<Rightarrow> (Inr PNone, w)
                | Inr (Some cached_data) \<Rightarrow>
                    if cached_data \<noteq> [] then
                      (case json_loads E cached_data of
                         Inl e \<Rightarrow> (Inr PNone, w)
                       | Inr v \<Rightarrow> (Inr v, w))
                    else (Inr PNone, w)))"

text \<open>
  \<^verbatim>\<open>_store_in_cache\<close>: \<^verbatim>\<open>self.config['redis'].get('ttl', 3600)\<close>, then the
  serialisation, then \<^verbatim>\<open>setex\<close>; an exception of any of the three is swallowed.
\<close>

definition store_in_cache :: "server \<Rightarrow> env \<Rightarrow> pyval \<Rightarrow> pyval \<Rightarrow> unit io" where
  "store_in_cache srv E key data =
     (\<lambda>w. if \<not> redis_client srv then (Inr (), w)
          else (case subscript (config srv) ''redis'' of
                  Inl e \<Rightarrow> (Inr (), w)
                | Inr sec \<Rightarrow>
                    (let ttl = dict_get sec ''ttl'' (PInt 3600) in
                     case json_dumps E data of
                       Inl e \<Rightarrow> (Inr (), w)
                     | Inr txt \<Rightarrow>
                         (case redis_setex w key ttl txt of
                            Inl e \<Rightarrow> (Inr (), w)
                          | Inr w' \<Rightarrow> (Inr (), w')))))"

section \<open>Gateway\<close>

text \<open>
  \<^verbatim>\<open>_format_response\<close> and \<^verbatim>\<open>_format_error_response\<close>. Building the dictionary
  evaluates \<^verbatim>\<open>Path(__file__).stat()\<close>, which may raise.
\<close>

definition format_response :: "env \<Rightarrow> pyval \<Rightarrow> bool \<Rightarrow> exn + pyval" where
  "format_response E data from_cache =
     (case stat_mtime E of
        Inl e \<Rightarrow> Inl e
      | Inr mtime \<Rightarrow>
          Inr (PDict [(''status'', PStr ''success''),
                      (''data'', data),
                      (''from_cache'', PBool from_cache),
                      (''timestamp'', PStr mtime)]))"

definition format_error_response :: "env \<Rightarrow> string \<Rightarrow> exn + pyval" where
  "format_error_response E error_message =
     (case stat_mtime E of
        Inl e \<Rightarrow> Inl e
      | Inr mtime \<Rightarrow>
          Inr (PDict [(''status'', PStr ''error''),
                      (''error'', PStr error_message),
                      (''timestamp'', PStr mtime)]))"

text \<open>
  The body of the \<^verbatim>\<open>try\<close> block of \<^verbatim>\<open>receive_client_request\<close>. The log lines are
  left out: they format strings and write to the logging sink.
\<close>

definition pipeline :: "server \<Rightarrow> env \<Rightarrow> pydict \<Rightarrow> pyval io" where
  "pipeline srv E request_data =
     io_bind (io_lift (parse_request E request_data)) (\<lambda>request.
     io_bind (if truthy (cache_key request) \<and> redis_client srv
              then check_cache srv E (cache_key request)
              else io_return PNone) (\<lambda>cached_result.
       if truthy (cache_key request) \<and> redis_client srv \<and> truthy cached_result
       then io_lift (format_response E cached_result True)
       else
         io_bind (route_request srv E request) (\<lambda>result.
         io_bind (if truthy (cache_key request) \<and> redis_client srv \<and> truthy result
                  then store_in_cache srv E (cache_key request) result
                  else io_return ()) (\<lambda>u.
         io_lift (format_response E result False)))))"

text \<open>
  \<^verbatim>\<open>receive_client_request\<close>: the \<^verbatim>\<open>except Exception\<close> clause turns whatever the
  body raised into the error envelope carrying \<^verbatim>\<open>str(e)\<close>. What
  \<^verbatim>\<open>_format_error_response\<close> raises inside that clause reaches the caller: the result
  is the response, or the exception that left the method.
\<close>

definition receive_client_request ::
  "server \<Rightarrow> env \<Rightarrow> pydict \<Rightarrow> world \<Rightarrow> (exn + pyval) \<times> world" where
  "receive_client_request srv E request_data w =
     (case pipeline srv E request_data w of
        (Inr response, w') \<Rightarrow> (Inr response, w')
      | (Inl e, w') \<Rightarrow> (format_error_response E (exn_str e), w'))"

text \<open>Reading a field of a response; there is none when the call raised.\<close>

definition field :: "exn + pyval \<Rightarrow> string \<Rightarrow> pyval option" where
  "field r k = (case r of Inr (PDict d) \<Rightarrow> map_of d k | _ \<Rightarrow> None)"

section \<open>Notions used in the statements\<close>

text \<open>
  A request hits the cache when it parses, carries a truthy \<^verbatim>\<open>cache_key\<close>, the server
  has a cache client, and the lookup yields a truthy value: the condition under which
  \<^verbatim>\<open>receive_client_request\<close> returns before routing.
\<close>

definition cache_hit :: "server \<Rightarrow> env \<Rightarrow> pydict \<Rightarrow> world \<Rightarrow> bool" where
  "cache_hit srv E request_data w =
     (case parse_request E request_data of
        Inl e \<Rightarrow> False
      | Inr request \<Rightarrow>
          truthy (cache_key request) \<and> redis_client srv
          \<and> (case fst (check_cache srv E (cache_key request) w) of
                Inl e \<Rightarrow> False
              | Inr v \<Rightarrow> truthy v))"

text \<open>
  A backend is unavailable when its client library is absent or its \<^verbatim>\<open>enabled\<close> entry
  is present and falsy; \<open>unavailable_message\<close> is what its handler then raises.
\<close>

definition disabled :: "server \<Rightarrow> string \<Rightarrow> bool" where
  "disabled srv section =
     (case config_item (config srv) section ''enabled'' of
        Inl e \<Rightarrow> False
      | Inr enabled \<Rightarrow> \<not> truthy enabled)"

definition unavailable :: "server \<Rightarrow> env \<Rightarrow> string \<Rightarrow> bool" where
  "unavailable srv E t =
     (if t = ''sqlite'' then disabled srv ''sqlite''
      else if t = ''postgresql'' then \<not> POSTGRESQL_AVAILABLE (mods E) \<or> disabled srv ''postgresql''
      else if t = ''mysql'' then \<not> MYSQL_AVAILABLE (mods E) \<or> disabled srv ''mysql''
      else if t = ''mongodb'' then \<not> MONGODB_AVAILABLE (mods E) \<or> disabled srv ''mongodb''
      else False)"

definition unavailable_message :: "string \<Rightarrow> string" where
  "unavailable_message t =
     (if t = ''sqlite'' then ''SQLite not enabled''
      else if t = ''postgresql'' then ''PostgreSQL not available or not enabled''
      else if t = ''mysql'' then ''MySQL not available or not enabled''
      else ''MongoDB not available or not enabled'')"

text \<open>
  The read condition as the specification words it: the operation lower-cased equals
  \<^verbatim>\<open>select\<close>, or the query text lower-cased starts with \<^verbatim>\<open>select\<close>.
\<close>

definition select_condition :: "env \<Rightarrow> string \<Rightarrow> string \<Rightarrow> bool" where
  "select_condition E op q = (lower E op = ''select'' \<or> startswith (lower E q) ''select'')"

text \<open>
  A relational backend is ready for a request when everything around the read-or-write
  decision of its handler succeeds: the backend is available and enabled, its
  configuration is complete, the connection opens, the query executes and leaves the
  cursor \<open>cur\<close>, and a commit succeeds.
\<close>

definition enabled_in :: "server \<Rightarrow> string \<Rightarrow> bool" where
  "enabled_in srv section =
     (case config_item (config srv) section ''enabled'' of
        Inl e \<Rightarrow> False
      | Inr enabled \<Rightarrow> truthy enabled)"

definition sqlite_ready :: "server \<Rightarrow> env \<Rightarrow> request \<Rightarrow> pydict cursor \<Rightarrow> bool" where
  "sqlite_ready srv E request cur =
     (enabled_in srv ''sqlite''
      \<and> (case config_item (config srv) ''sqlite'' ''db_path'' of
            Inl e \<Rightarrow> False
          | Inr db_path \<Rightarrow>
              makedirs_dirname E db_path = None
              \<and> drv_connect (sqlite3 E) [db_path] = None)
      \<and> drv_execute (sqlite3 E) (query request) (py_or (parameters request) (PList []))
          = Inr cur
      \<and> drv_commit (sqlite3 E) = None)"

definition postgresql_ready :: "server \<Rightarrow> env \<Rightarrow> request \<Rightarrow> pydict cursor \<Rightarrow> bool" where
  "postgresql_ready srv E request cur =
     (POSTGRESQL_AVAILABLE (mods E) \<and> RealDictCursor_found (mods E)
      \<and> enabled_in srv ''postgresql''
      \<and> (case map_of (config srv) ''postgresql'' of
            None \<Rightarrow> False
          | Some c \<Rightarrow>
              (case (map_of c ''host'', map_of c ''port'', map_of c ''database'',
                     map_of c ''user'', map_of c ''password'') of
                 (Some host, Some port, Some database, Some user, Some password) \<Rightarrow>
                   drv_connect (psycopg2 E) [host, port, database, user, password] = None
               | _ \<Rightarrow> False))
      \<and> drv_execute (psycopg2 E) (query request) (parameters request) = Inr cur
      \<and> drv_commit (psycopg2 E) = None)"

definition mysql_ready :: "server \<Rightarrow> env \<Rightarrow> request \<Rightarrow> pyval list cursor \<Rightarrow> bool" where
  "mysql_ready srv E request cur =
     (MYSQL_AVAILABLE (mods E)
      \<and> enabled_in srv ''mysql''
      \<and> (case map_of (config srv) ''mysql'' of
            None \<Rightarrow> False
          | Some c \<Rightarrow>
              (case (map_of c ''host'', map_of c ''port'', map_of c ''user'',
                     map_of c ''password'', map_of c ''database'') of
                 (Some host, Some port, Some user, Some password, Some database) \<Rightarrow>
                   drv_connect (pymysql E) [host, port, user, password, database] = None
               | _ \<Rightarrow> False))
      \<and> drv_execute (pymysql E) (query request) (parameters request) = Inr cur
      \<and> drv_commit (pymysql E) = None)"

text \<open>The world after further calls on database connections.\<close>

definition logged :: "world \<Rightarrow> db_call list \<Rightarrow> world" where
  "logged w cs = w\<lparr>db_calls := db_calls w @ cs\<rparr>"

text \<open>The same request issued \<open>n\<close> times in a row: the responses, and the world left.\<close>

fun repeat_request ::
  "nat \<Rightarrow> server \<Rightarrow> env \<Rightarrow> pydict \<Rightarrow> world \<Rightarrow> (exn + pyval) list \<times> world" where
  "repeat_request 0 srv E request_data w = ([], w)"
| "repeat_request (Suc n) srv E request_data w =
     (case receive_client_request srv E request_data w of
        (response, w') \<Rightarrow>
          (case repeat_request n srv E request_data w' of
             (responses, w'') \<Rightarrow> (response # responses, w'')))"

text \<open>
  A computation that touches database connections only: its outcome does not depend
  on the world, and it leaves the Redis server as it found it.
\<close>

definition db_only :: "'a io \<Rightarrow> bool" where
  "db_only m = (\<exists>r. \<forall>w. fst (m w) = r \<and> redis (snd (m w)) = redis w)"

section \<open>An example environment\<close>

text \<open>
  A runtime environment for the examples: every connection succeeds, a statement whose
  text starts with \<^verbatim>\<open>select\<close> yields the given rows under the given columns, any other
  statement changes one row. The serialiser and the Unicode tables are given on the
  values the examples meet: two row lists, one of them with a \<^verbatim>\<open>datetime\<close> that
  \<^verbatim>\<open>default=str\<close> turns into a string, and the word \<^verbatim>\<open>ORACL\<close> followed by a capital E
  with an acute accent (the bytes C3 89 in UTF-8, C3 A9 in lower case).
\<close>

definition all_modules :: modules where
  "all_modules = \<lparr> REDIS_AVAILABLE = True, POSTGRESQL_AVAILABLE = True,
                    RealDictCursor_found = True, MYSQL_AVAILABLE = True,
                    MONGODB_AVAILABLE = True \<rparr>"

definition ex_driver :: "string list \<Rightarrow> 'row list \<Rightarrow> 'row sql_driver" where
  "ex_driver columns rows =
     \<lparr> drv_connect = (\<lambda>args. None),
       drv_execute = (\<lambda>q ps.
         case q of
           PStr s \<Rightarrow>
             if startswith (map lower_char s) ''select''
             then Inr \<lparr> description = Some columns, fetchall = Inr rows,
                        rowcount = PInt (- 1), lastrowid = PInt 0 \<rparr>
             else Inr \<lparr> description = None, fetchall = Inr [],
                        rowcount = PInt 1, lastrowid = PInt 7 \<rparr>
         | _ \<Rightarrow> Inl (LibraryError ''TypeError'' ''execute() argument 1 must be str'')),
       drv_commit = None \<rparr>"

definition ex_mongo :: mongo_driver where
  "ex_mongo =
     \<lparr> mongo_client = (\<lambda>uri. None),
       mongo_database = (\<lambda>name. None),
       mongo_find = (\<lambda>collection q.
         Inr [[(''_id'', PObj ''ObjectId'' ''65f0c0ffee''), (''name'', PStr ''ada'')]]),
       mongo_insert_one = (\<lambda>collection document. Inr (PObj ''ObjectId'' ''65f0c0ffee'')),
       mongo_update_many = (\<lambda>collection q upd. Inr (PInt 1, PInt 1)),
       mongo_delete_many = (\<lambda>collection q. Inr (PInt 1)) \<rparr>"

definition ex_rows :: "pydict list" where
  "ex_rows = [[(''name'', PStr ''users'')]]"

definition ex_text :: string where
  \<open>ex_text = ''[{"name": "users"}]''\<close>

definition dated_rows :: "pydict list" where
  "dated_rows = [[(''name'', PObj ''datetime'' ''2024-05-01 10:00:00'')]]"

definition dated_text :: string where
  \<open>dated_text = ''[{"name": "2024-05-01 10:00:00"}]''\<close>

definition ex_dumps :: "pyval \<Rightarrow> exn + string" where
  "ex_dumps v =
     (if v = PList (map PDict ex_rows) then Inr ex_text
      else if v = PList (map PDict dated_rows) then Inr dated_text
      else if v = PList [] then Inr ''[]''
      else Inl (LibraryError ''TypeError'' ''not in the excerpt''))"

definition ex_loads :: "string \<Rightarrow> exn + pyval" where
  "ex_loads txt =
     (if txt = ex_text then Inr (PList (map PDict ex_rows))
      else if txt = dated_text
        then Inr (PList [PDict [(''name'', PStr ''2024-05-01 10:00:00'')]])
      else if txt = ''[]'' then Inr (PList [])
      else Inl (LibraryError ''JSONDecodeError'' ''Expecting value''))"

definition ex_lower :: "string \<Rightarrow> string" where
  "ex_lower s =
     (if s = ''ORACL'' @ [CHR 0xC3, CHR 0x89] then ''oracl'' @ [CHR 0xC3, CHR 0xA9] else s)"

definition ex_env :: "modules \<Rightarrow> exn + string \<Rightarrow> pydict list \<Rightarrow> env" where
  "ex_env m mtime rows =
     \<lparr> mods = m,
       stat_mtime = mtime,
       json_dumps = ex_dumps,
       json_loads = ex_loads,
       unicode_lower = ex_lower,
       repr_other = (\<lambda>v. ''[]''),
       makedirs_dirname = (\<lambda>path. None),
       sqlite3 = ex_driver [''name''] rows,
       psycopg2 = ex_driver [''name''] rows,
       pymysql = ex_driver [''name''] (map (map snd) rows),
       pymongo = ex_mongo \<rparr>"

text \<open>
  A server with the default configuration and a cache client, one whose configured
  time-to-live is zero, and three worlds: an empty cache, one entry under the key
  \<^verbatim>\<open>tables\<close>, and one entry under the key \<^verbatim>\<open>5\<close>.
\<close>

definition ex_server :: "modules \<Rightarrow> server" where
  "ex_server m = \<lparr> config = load_default_config m, redis_client = True \<rparr>"

definition ttl0_server :: server where
  "ttl0_server =
     \<lparr> config = [(''sqlite'', [(''enabled'', PBool True), (''db_path'', PStr ''./data/app.db'')]),
                  (''redis'', [(''enabled'', PBool True), (''ttl'', PInt 0)])],
       redis_client = True \<rparr>"

definition ex_redis :: "(string \<rightharpoonup> int \<times> string) \<Rightarrow> redis_server" where
  "ex_redis entries =
     \<lparr> redis_up = True, redis_writable = True, redis_max_expire = 9000000000000000,
       redis_store = entries \<rparr>"

definition empty_world :: world where
  "empty_world = \<lparr> db_calls = [], redis = ex_redis Map.empty \<rparr>"

definition cached_world :: world where
  "cached_world = \<lparr> db_calls = [], redis = ex_redis [''tables'' \<mapsto> (3600, ex_text)] \<rparr>"

definition cached_world5 :: world where
  "cached_world5 = \<lparr> db_calls = [], redis = ex_redis [''5'' \<mapsto> (3600, ex_text)] \<rparr>"

definition down_world :: world where
  "down_world = \<lparr> db_calls = [], redis = (ex_redis Map.empty)\<lparr>redis_up := False\<rparr> \<rparr>"

definition select_tables :: pydict where
  "select_tables =
     [(''db_type'', PStr ''sqlite''), (''operation'', PStr ''select''),
      (''query'', PStr ''SELECT name FROM sqlite_master''),
      (''cache_key'', PStr ''tables'')]"

definition select_tables_request :: request where
  "select_tables_request =
     \<lparr> db_type = ''sqlite'', operation = PStr ''select'',
       query = PStr ''SELECT name FROM sqlite_master'',
       parameters = PDict [], cache_key = PStr ''tables'' \<rparr>"

definition no_file :: exn where
  "no_file = LibraryError ''FileNotFoundError'' ''[Errno 2] No such file or directory''"

section \<open>Properties of the effects\<close>

lemma io_bind_alt:
  "io_bind m f w =
     (case fst (m w) of Inl e \<Rightarrow> (Inl e, snd (m w)) | Inr v \<Rightarrow> f v (snd (m w)))"
  by (simp add: io_bind_def split: prod.splits sum.splits)

lemma with_connection_alt:
  "with_connection drv body w =
     (case fst (body w) of
        Inl e \<Rightarrow> (Inl e, (snd (body w))\<lparr>db_calls := db_calls (snd (body w)) @ [Rollback]\<rparr>)
      | Inr v \<Rightarrow> ((case drv_commit drv of None \<Rightarrow> Inr v | Some e \<Rightarrow> Inl e),
                  (snd (body w))\<lparr>db_calls := db_calls (snd (body w)) @ [Commit]\<rparr>))"
  by (simp add: with_connection_def db_do_def split: prod.splits sum.splits option.splits)

lemma finally_close_alt:
  "finally_close body w =
     (fst (body w), (snd (body w))\<lparr>db_calls := db_calls (snd (body w)) @ [Close]\<rparr>)"
  by (simp add: finally_close_def split: prod.splits)

text \<open>Each primitive touches database connections only, and so does every composition.\<close>

lemma db_only_return: "db_only (io_return v)"
  by (simp add: db_only_def io_return_def)

lemma db_only_raise: "db_only (io_raise e)"
  by (simp add: db_only_def io_raise_def)

lemma db_only_lift: "db_only (io_lift r)"
  by (simp add: db_only_def io_lift_def)

lemma db_only_check: "db_only (io_check outcome)"
  by (simp add: io_check_def db_only_lift)

lemma db_only_do: "db_only (db_do c outcome)"
  by (simp add: db_only_def db_do_def)

lemma db_only_execute: "db_only (db_execute drv q ps)"
  by (simp add: db_only_def db_execute_def)

lemma db_only_fetchall: "db_only (db_fetchall cur)"
  by (simp add: db_only_def db_fetchall_def)

lemma db_only_bind:
  assumes m: "db_only m" and f: "\<And>v. db_only (f v)"
  shows "db_only (io_bind m f)"
proof -
  from m obtain r where r: "\<And>w. fst (m w) = r"
    and keep: "\<And>w. redis (snd (m w)) = redis w"
    unfolding db_only_def by blast
  show ?thesis
  proof (cases r)
    case (Inl e)
    then show ?thesis
      unfolding db_only_def
      by (intro exI[where x = "Inl e"]) (simp add: io_bind_alt r keep)
  next
    case (Inr v)
    from f[of v] obtain r' where r': "\<And>w. fst (f v w) = r'"
      and keep': "\<And>w. redis (snd (f v w)) = redis w"
      unfolding db_only_def by blast
    from Inr show ?thesis
      unfolding db_only_def
      by (intro exI[where x = r']) (simp add: io_bind_alt r keep r' keep')
  qed
qed

lemma db_only_if: "db_only a \<Longrightarrow> db_only b \<Longrightarrow> db_only (if c then a else b)"
  by simp

lemma db_only_case_prod:
  "(\<And>a b. db_only (f a b)) \<Longrightarrow> db_only (case p of (a, b) \<Rightarrow> f a b)"
  by (cases p) simp

lemma db_only_finally:
  assumes "db_only body"
  shows "db_only (finally_close body)"
proof -
  from assms obtain r where r: "\<And>w. fst (body w) = r"
    and keep: "\<And>w. redis (snd (body w)) = redis w"
    unfolding db_only_def by blast
  show ?thesis
    unfolding db_only_def
    by (intro exI[where x = r]) (simp add: finally_close_alt r keep)
qed

lemma db_only_with:
  assumes "db_only body"
  shows "db_only (with_connection drv body)"
proof -
  from assms obtain r where r: "\<And>w. fst (body w) = r"
    and keep: "\<And>w. redis (snd (body w)) = redis w"
    unfolding db_only_def by blast
  show ?thesis
    unfolding db_only_def
    by (intro exI[where x = "case r of Inl e \<Rightarrow> Inl e
          | Inr v \<Rightarrow> (case drv_commit drv of None \<Rightarrow> Inr v | Some e \<Rightarrow> Inl e)"])
       (simp add: with_connection_alt r keep split: sum.splits)
qed

lemmas db_only_intros =
  db_only_return db_only_raise db_only_lift db_only_check db_only_do db_only_execute
  db_only_fetchall db_only_bind db_only_if db_only_case_prod db_only_finally db_only_with

lemma db_only_sqlite: "db_only (handle_sqlite srv E request)"
  unfolding handle_sqlite_def by (intro db_only_intros)

lemma db_only_postgresql: "db_only (handle_postgresql srv E request)"
  unfolding handle_postgresql_def by (intro db_only_intros)

lemma db_only_mysql: "db_only (handle_mysql srv E request)"
  unfolding handle_mysql_def by (intro db_only_intros)

lemma db_only_mongodb: "db_only (handle_mongodb srv E request)"
  unfolding handle_mongodb_def by (intro db_only_intros)

lemma db_only_route: "db_only (route_request srv E request)"
  unfolding route_request_def
  by (intro db_only_intros db_only_sqlite db_only_postgresql db_only_mysql db_only_mongodb)

lemma route_result_fixed:
  "fst (route_request srv E request w) = fst (route_request srv E request w0)"
  using db_only_route[of srv E request] unfolding db_only_def by metis

lemma route_keeps_cache: "redis (snd (route_request srv E request w)) = redis w"
  using db_only_route[of srv E request] unfolding db_only_def by auto

section \<open>Properties of the cache adapter and the gateway\<close>

lemma check_cache_world: "snd (check_cache srv E key w) = w"
  by (simp add: check_cache_def split: sum.splits option.splits)

lemma check_cache_value: "\<exists>v. fst (check_cache srv E key w) = Inr v"
  by (simp add: check_cache_def split: sum.splits option.splits)

lemma store_in_cache_unit: "fst (store_in_cache srv E key data w) = Inr ()"
  by (simp add: store_in_cache_def Let_def split: sum.splits option.splits)

text \<open>
  When \<^verbatim>\<open>_format_response\<close> raises inside the \<^verbatim>\<open>try\<close> block, the \<^verbatim>\<open>except\<close> clause calls
  \<^verbatim>\<open>_format_error_response\<close>, which raises the same exception.
\<close>

lemma format_reraise:
  "(case format_response E d fc of
      Inl e \<Rightarrow> format_error_response E (exn_str e)
    | Inr response \<Rightarrow> Inr response) = format_response E d fc"
  by (simp add: format_response_def format_error_response_def split: sum.splits)

text \<open>
  The three ways through \<^verbatim>\<open>receive_client_request\<close>: the request does not parse; it
  hits the cache; it is routed to a handler.
\<close>

lemma receive_parse_error:
  assumes "parse_request E raw = Inl e"
  shows "receive_client_request srv E raw w = (format_error_response E (exn_str e), w)"
  using assms by (simp add: receive_client_request_def pipeline_def io_bind_alt io_lift_def)

lemma receive_hit:
  assumes "parse_request E raw = Inr request" and "cache_hit srv E raw w"
    and "fst (check_cache srv E (cache_key request) w) = Inr v"
  shows "receive_client_request srv E raw w = (format_response E v True, w)"
proof -
  have "receive_client_request srv E raw w =
          (case format_response E v True of
             Inl e \<Rightarrow> format_error_response E (exn_str e)
           | Inr response \<Rightarrow> Inr response, w)"
    using assms
    by (simp add: receive_client_request_def pipeline_def io_bind_alt io_lift_def
                  io_return_def cache_hit_def check_cache_world split: sum.splits)
  then show ?thesis by (simp only: format_reraise)
qed

lemma receive_miss:
  assumes "parse_request E raw = Inr request" and "\<not> cache_hit srv E raw w"
  shows "receive_client_request srv E raw w =
     (case fst (route_request srv E request w) of
        Inl e \<Rightarrow> (format_error_response E (exn_str e), snd (route_request srv E request w))
      | Inr result \<Rightarrow>
          (format_response E result False,
           if truthy (cache_key request) \<and> redis_client srv \<and> truthy result
           then snd (store_in_cache srv E (cache_key request) result
                       (snd (route_request srv E request w)))
           else snd (route_request srv E request w)))"
proof -
  obtain v where v: "fst (check_cache srv E (cache_key request) w) = Inr v"
    using check_cache_value by blast
  have "receive_client_request srv E raw w =
     (case fst (route_request srv E request w) of
        Inl e \<Rightarrow> (format_error_response E (exn_str e), snd (route_request srv E request w))
      | Inr result \<Rightarrow>
          (case format_response E result False of
             Inl e \<Rightarrow> format_error_response E (exn_str e)
           | Inr response \<Rightarrow> Inr response,
           if truthy (cache_key request) \<and> redis_client srv \<and> truthy result
           then snd (store_in_cache srv E (cache_key request) result
                       (snd (route_request srv E request w)))
           else snd (route_request srv E request w)))"
    using assms v
    by (simp add: receive_client_request_def pipeline_def io_bind_alt io_lift_def
                  io_return_def cache_hit_def check_cache_world store_in_cache_unit
             split: sum.splits)
  then show ?thesis by (simp only: format_reraise)
qed

lemma receive_response:
  "fst (receive_client_request srv E raw w) =
     (case parse_request E raw of
        Inl e \<Rightarrow> format_error_response E (exn_str e)
      | Inr request \<Rightarrow>
          if cache_hit srv E raw w
          then format_response E
                 (case fst (check_cache srv E (cache_key request) w) of
                    Inl e \<Rightarrow> PNone | Inr v \<Rightarrow> v) True
          else (case fst (route_request srv E request w) of
                  Inl e \<Rightarrow> format_error_response E (exn_str e)
                | Inr result \<Rightarrow> format_response E result False))"
proof (cases "parse_request E raw")
  case (Inl e)
  then show ?thesis by (simp add: receive_parse_error)
next
  case (Inr request)
  show ?thesis
  proof (cases "cache_hit srv E raw w")
    case True
    obtain v where v: "fst (check_cache srv E (cache_key request) w) = Inr v"
      using check_cache_value by blast
    from Inr True v show ?thesis by (simp add: receive_hit)
  next
    case False
    from Inr False show ?thesis by (simp add: receive_miss split: sum.splits)
  qed
qed

text \<open>The envelopes, when the modification time can be read.\<close>

lemma format_response_ok:
  "stat_mtime E = Inr mtime \<Longrightarrow>
   format_response E d fc =
     Inr (PDict [(''status'', PStr ''success''), (''data'', d),
                 (''from_cache'', PBool fc), (''timestamp'', PStr mtime)])"
  by (simp add: format_response_def)

lemma format_error_response_ok:
  "stat_mtime E = Inr mtime \<Longrightarrow>
   format_error_response E m =
     Inr (PDict [(''status'', PStr ''error''), (''error'', PStr m),
                 (''timestamp'', PStr mtime)])"
  by (simp add: format_error_response_def)

text \<open>Unfolding sets for evaluating the model on the examples.\<close>

lemmas io_defs =
  io_bind_def io_lift_def io_return_def io_raise_def io_check_def db_do_def db_execute_def
  db_fetchall_def with_connection_def finally_close_def

lemmas str_defs =
  lower_def ascii_def lower_char_def startswith_def quote_def int_str_def nat_str.simps
  digit_char_def str_int_def str_nat_def digit_val_def

lemmas gateway_defs =
  receive_client_request_def pipeline_def parse_request_def dict_get_def check_cache_def
  store_in_cache_def route_request_def format_response_def format_error_response_def
  redis_get_def redis_setex_def subscript_def config_item_def is_select_def py_or_def
  field_def cache_hit_def logged_def

lemmas ex_defs =
  ex_env_def ex_server_def ttl0_server_def ex_redis_def empty_world_def cached_world_def
  cached_world5_def down_world_def select_tables_def select_tables_request_def
  ex_driver_def ex_mongo_def ex_rows_def ex_text_def dated_rows_def dated_text_def
  ex_dumps_def ex_loads_def ex_lower_def all_modules_def load_default_config_def no_file_def

section \<open>Parsing\<close>

text \<open>
  C8 (as amended). When the raw request parses, the \<open>parameters\<close> field of the parsed
  request is the value the raw request carries under \<^verbatim>\<open>"parameters"\<close>, whatever it is
  (a null stays \<^verbatim>\<open>None\<close>, as the annotation \<^verbatim>\<open>Optional[Dict[str, Any]]\<close> admits), and
  the empty mapping when the key is absent.
\<close>

theorem parse_request_parameters:
  assumes "parse_request E request_data = Inr request"
  shows "parameters request =
           (case map_of request_data ''parameters'' of None \<Rightarrow> PDict [] | Some v \<Rightarrow> v)"
  using assms by (auto simp: parse_request_def dict_get_def split: sum.splits)

theorem parse_request_parameters_witness:
  "parse_request (ex_env all_modules (Inr ''1700000000.0'') ex_rows)
     [(''db_type'', PStr ''SQLite''), (''operation'', PStr ''select'')]
     = Inr \<lparr> db_type = ''sqlite'', operation = PStr ''select'', query = PNone,
             parameters = PDict [], cache_key = PNone \<rparr>
   \<and> parameters \<lparr> db_type = ''sqlite'', operation = PStr ''select'', query = PNone,
                  parameters = PDict [], cache_key = PNone \<rparr> = PDict []"
  using parse_request_parameters
          [of "ex_env all_modules (Inr ''1700000000.0'') ex_rows"
              "[(''db_type'', PStr ''SQLite''), (''operation'', PStr ''select'')]"
              "\<lparr> db_type = ''sqlite'', operation = PStr ''select'', query = PNone,
                 parameters = PDict [], cache_key = PNone \<rparr>"]
  by (simp add: parse_request_def dict_get_def str_defs)

text \<open>
  C8 as stated fails: a raw request whose \<^verbatim>\<open>"parameters"\<close> is null parses to a request
  whose \<open>parameters\<close> is \<^verbatim>\<open>None\<close>, not the empty mapping.
\<close>

theorem parse_request_null_parameters:
  "parse_request (ex_env all_modules (Inr ''1700000000.0'') ex_rows)
     [(''db_type'', PStr ''mongodb''), (''operation'', PStr ''find''),
      (''parameters'', PNone)]
     = Inr \<lparr> db_type = ''mongodb'', operation = PStr ''find'', query = PNone,
             parameters = PNone, cache_key = PNone \<rparr>
   \<and> PNone \<noteq> PDict []"
  by (simp add: parse_request_def dict_get_def str_defs)

section \<open>The envelope\<close>

text \<open>
  C1 (as amended). For every raw request mapping, as long as the modification time of
  the source file can be read for the timestamp, \<^verbatim>\<open>receive_client_request\<close> returns an
  envelope whose status is \<^verbatim>\<open>"success"\<close> or \<^verbatim>\<open>"error"\<close> and raises nothing. An exception
  of parsing, routing or handler execution is caught at the gateway and becomes the
  error envelope carrying \<^verbatim>\<open>str(e)\<close>. A cache hit becomes a success envelope with
  \<^verbatim>\<open>from_cache\<close> true. Otherwise the handler's result becomes a success envelope with
  \<^verbatim>\<open>from_cache\<close> false: a failure of the cache lookup or of the cache store is caught
  inside the cache adapter and never becomes an error envelope.
\<close>

theorem receive_always_envelope:
  assumes "stat_mtime E = Inr mtime"
  shows "(\<exists>response. fst (receive_client_request srv E raw w) = Inr response)
       \<and> (field (fst (receive_client_request srv E raw w)) ''status'' = Some (PStr ''success'')
          \<or> field (fst (receive_client_request srv E raw w)) ''status'' = Some (PStr ''error''))
       \<and> fst (receive_client_request srv E raw w) =
           (case parse_request E raw of
              Inl e \<Rightarrow>
                Inr (PDict [(''status'', PStr ''error''), (''error'', PStr (exn_str e)),
                            (''timestamp'', PStr mtime)])
            | Inr request \<Rightarrow>
                if cache_hit srv E raw w
                then Inr (PDict [(''status'', PStr ''success''),
                                 (''data'', case fst (check_cache srv E (cache_key request) w) of
                                              Inl e \<Rightarrow> PNone | Inr v \<Rightarrow> v),
                                 (''from_cache'', PBool True),
                                 (''timestamp'', PStr mtime)])
                else (case fst (route_request srv E request w) of
                        Inl e \<Rightarrow>
                          Inr (PDict [(''status'', PStr ''error''),
                                      (''error'', PStr (exn_str e)),
                                      (''timestamp'', PStr mtime)])
                      | Inr result \<Rightarrow>
                          Inr (PDict [(''status'', PStr ''success''), (''data'', result),
                                      (''from_cache'', PBool False),
                                      (''timestamp'', PStr mtime)])))"
  by (simp only: receive_response format_response_ok[OF assms]
                 format_error_response_ok[OF assms])
     (simp add: field_def split: sum.splits)

theorem receive_always_envelope_witness:
  "fst (receive_client_request (ex_server all_modules)
          (ex_env all_modules (Inr ''1700000000.0'') ex_rows)
          [(''db_type'', PInt 7)] empty_world)
   = Inr (PDict [(''status'', PStr ''error''),
                 (''error'', PStr (quote # ''int'' @ [quote] @ '' object has no attribute ''
                                   @ quote # ''lower'' @ [quote])),
                 (''timestamp'', PStr ''1700000000.0'')])"
  using receive_always_envelope
          [of "ex_env all_modules (Inr ''1700000000.0'') ex_rows" "''1700000000.0''"
              "ex_server all_modules" "[(''db_type'', PInt 7)]" empty_world]
  by (simp add: ex_env_def parse_request_def dict_get_def no_attribute_def)

text \<open>
  C1 as stated fails twice. With the cache store unreachable the lookup raises, and the
  response is the success envelope of the backend's rows, not an error envelope. And
  when the source file cannot be examined, \<^verbatim>\<open>_format_error_response\<close> raises inside the
  \<^verbatim>\<open>except\<close> clause and the exception reaches the caller.
\<close>

theorem cache_failure_not_an_error:
  "redis_get down_world (PStr ''tables'')
     = Inl (LibraryError ''ConnectionError'' ''Connection refused'')
   \<and> fst (receive_client_request (ex_server all_modules)
             (ex_env all_modules (Inr ''1700000000.0'') ex_rows) select_tables down_world)
     = Inr (PDict [(''status'', PStr ''success''),
                   (''data'', PList [PDict [(''name'', PStr ''users'')]]),
                   (''from_cache'', PBool False),
                   (''timestamp'', PStr ''1700000000.0'')])
   \<and> fst (receive_client_request (ex_server all_modules)
             (ex_env all_modules (Inl no_file) ex_rows) select_tables empty_world)
     = Inl no_file"
  by (simp add: gateway_defs handle_sqlite_def io_defs ex_defs str_defs)

section \<open>Routing\<close>

lemma parse_request_db_type:
  assumes "dict_get raw ''db_type'' (PStr []) = PStr s"
  shows "\<exists>request. parse_request E raw = Inr request \<and> db_type request = lower E s"
  using assms by (simp add: parse_request_def)

text \<open>
  C4 (as amended). For every request whose \<^verbatim>\<open>db_type\<close> is a string (or absent, which
  counts as the empty string) that after lower-casing is none of \<^verbatim>\<open>sqlite\<close>,
  \<^verbatim>\<open>postgresql\<close>, \<^verbatim>\<open>mysql\<close>, \<^verbatim>\<open>mongodb\<close>, and that does not hit the cache: as long as
  the modification time of the source file can be read, the response is the error
  envelope with the message \<^verbatim>\<open>Unsupported database type: \<close> followed by the lower-cased
  type, nothing is raised, and the world is left as it was.
\<close>

theorem unsupported_db_type:
  assumes "dict_get raw ''db_type'' (PStr []) = PStr s"
    and "lower E s \<noteq> ''sqlite''" and "lower E s \<noteq> ''postgresql''"
    and "lower E s \<noteq> ''mysql''" and "lower E s \<noteq> ''mongodb''"
    and "\<not> cache_hit srv E raw w"
    and "stat_mtime E = Inr mtime"
  shows "receive_client_request srv E raw w =
           (Inr (PDict [(''status'', PStr ''error''),
                        (''error'', PStr (''Unsupported database type: '' @ lower E s)),
                        (''timestamp'', PStr mtime)]), w)"
proof -
  obtain request where p: "parse_request E raw = Inr request"
    and t: "db_type request = lower E s"
    using parse_request_db_type[OF assms(1)] by blast
  have "route_request srv E request w =
          (Inl (ValueError (''Unsupported database type: '' @ lower E s)), w)"
    using assms(2-5) t by (simp add: route_request_def io_raise_def)
  with p assms(6) show ?thesis
    by (simp add: receive_miss format_error_response_ok[OF assms(7)])
qed

theorem unsupported_db_type_witness:
  "\<not> cache_hit (ex_server all_modules) (ex_env all_modules (Inr ''1700000000.0'') ex_rows)
       [(''db_type'', PStr (''ORACL'' @ [CHR 0xC3, CHR 0x89])),
        (''operation'', PStr ''select''), (''cache_key'', PInt 5)] cached_world
   \<and> receive_client_request (ex_server all_modules)
       (ex_env all_modules (Inr ''1700000000.0'') ex_rows)
       [(''db_type'', PStr (''ORACL'' @ [CHR 0xC3, CHR 0x89])),
        (''operation'', PStr ''select''), (''cache_key'', PInt 5)] cached_world
     = (Inr (PDict [(''status'', PStr ''error''),
                    (''error'', PStr (''Unsupported database type: oracl''
                                      @ [CHR 0xC3, CHR 0xA9])),
                    (''timestamp'', PStr ''1700000000.0'')]), cached_world)"
  using unsupported_db_type
          [of "[(''db_type'', PStr (''ORACL'' @ [CHR 0xC3, CHR 0x89])),
                (''operation'', PStr ''select''), (''cache_key'', PInt 5)]"
              "''ORACL'' @ [CHR 0xC3, CHR 0x89]"
              "ex_env all_modules (Inr ''1700000000.0'') ex_rows"
              "ex_server all_modules" cached_world "''1700000000.0''"]
  by (simp add: gateway_defs ex_defs str_defs)

text \<open>
  C4 as stated fails twice. The cache is consulted before the router, and the key is the
  caller's, so a request for an unsupported type whose \<^verbatim>\<open>cache_key\<close> has an entry is
  answered from the cache with a success envelope. And when the source file cannot be
  examined, the exception of \<^verbatim>\<open>_format_error_response\<close> reaches the caller.
\<close>

theorem unsupported_db_type_cache_hit:
  "fst (receive_client_request (ex_server all_modules)
          (ex_env all_modules (Inr ''1700000000.0'') ex_rows)
          [(''db_type'', PStr ''oracle''), (''operation'', PStr ''select''),
           (''cache_key'', PStr ''tables'')] cached_world)
     = Inr (PDict [(''status'', PStr ''success''),
                   (''data'', PList [PDict [(''name'', PStr ''users'')]]),
                   (''from_cache'', PBool True),
                   (''timestamp'', PStr ''1700000000.0'')])
   \<and> fst (receive_client_request (ex_server all_modules)
          (ex_env all_modules (Inl no_file) ex_rows)
          [(''db_type'', PStr ''oracle''), (''operation'', PStr ''select'')] empty_world)
     = Inl no_file"
  by (simp add: gateway_defs io_defs ex_defs str_defs)

text \<open>
  The first bind of a computation, when its first step is known.
\<close>

lemma io_bind_lift_Inr: "io_bind (io_lift (Inr v)) f = f v"
  by (simp add: io_bind_def io_lift_def)

lemma io_bind_lift_Inl: "io_bind (io_lift (Inl e)) f = io_raise e"
  by (simp add: io_bind_def io_lift_def io_raise_def)

lemma io_bind_return: "io_bind (io_return v) f = f v"
  by (simp add: io_bind_def io_return_def)

lemma io_bind_raise: "io_bind (io_raise e) f = io_raise e"
  by (simp add: io_bind_def io_raise_def)

lemmas io_bind_simps = io_bind_lift_Inr io_bind_lift_Inl io_bind_return io_bind_raise

lemma sqlite_disabled:
  assumes "disabled srv ''sqlite''"
  shows "handle_sqlite srv E request = io_raise (RuntimeError ''SQLite not enabled'')"
proof -
  from assms obtain enabled where "config_item (config srv) ''sqlite'' ''enabled'' = Inr enabled" "\<not> truthy enabled"
    by (auto simp: disabled_def split: sum.splits)
  then show ?thesis
    unfolding handle_sqlite_def by (simp only: io_bind_simps simp_thms if_True if_False)
qed

lemma postgresql_unavailable:
  assumes "\<not> POSTGRESQL_AVAILABLE (mods E) \<or> disabled srv ''postgresql''"
  shows "handle_postgresql srv E request = io_raise (RuntimeError ''PostgreSQL not available or not enabled'')"
proof (cases "POSTGRESQL_AVAILABLE (mods E)")
  case False
  then show ?thesis unfolding handle_postgresql_def by (simp only: io_bind_simps truthy.simps simp_thms if_True if_False)
next
  case True
  with assms obtain enabled where "config_item (config srv) ''postgresql'' ''enabled'' = Inr enabled" "\<not> truthy enabled"
    by (auto simp: disabled_def split: sum.splits)
  with True show ?thesis
    unfolding handle_postgresql_def by (simp only: io_bind_simps simp_thms if_True if_False)
qed

lemma mysql_unavailable:
  assumes "\<not> MYSQL_AVAILABLE (mods E) \<or> disabled srv ''mysql''"
  shows "handle_mysql srv E request = io_raise (RuntimeError ''MySQL not available or not enabled'')"
proof (cases "MYSQL_AVAILABLE (mods E)")
  case False
  then show ?thesis unfolding handle_mysql_def by (simp only: io_bind_simps truthy.simps simp_thms if_True if_False)
next
  case True
  with assms obtain enabled where "config_item (config srv) ''mysql'' ''enabled'' = Inr enabled" "\<not> truthy enabled"
    by (auto simp: disabled_def split: sum.splits)
  with True show ?thesis
    unfolding handle_mysql_def by (simp only: io_bind_simps simp_thms if_True if_False)
qed

lemma mongodb_unavailable:
  assumes "\<not> MONGODB_AVAILABLE (mods E) \<or> disabled srv ''mongodb''"
  shows "handle_mongodb srv E request = io_raise (RuntimeError ''MongoDB not available or not enabled'')"
proof (cases "MONGODB_AVAILABLE (mods E)")
  case False
  then show ?thesis unfolding handle_mongodb_def by (simp only: io_bind_simps truthy.simps simp_thms if_True if_False)
next
  case True
  with assms obtain enabled where "config_item (config srv) ''mongodb'' ''enabled'' = Inr enabled" "\<not> truthy enabled"
    by (auto simp: disabled_def split: sum.splits)
  with True show ?thesis
    unfolding handle_mongodb_def by (simp only: io_bind_simps simp_thms if_True if_False)
qed

lemma unavailable_route:
  assumes "unavailable srv E (db_type request)"
  shows "route_request srv E request w = (Inl (RuntimeError (unavailable_message (db_type request))), w)"
proof -
  consider "db_type request = ''sqlite''" | "db_type request = ''postgresql''"
    | "db_type request = ''mysql''" | "db_type request = ''mongodb''"
    using assms by (auto simp: unavailable_def split: if_splits)
  then show ?thesis
  proof cases
    case 1
    with assms show ?thesis
      by (simp add: unavailable_def unavailable_message_def route_request_def sqlite_disabled io_raise_def)
  next
    case 2
    with assms show ?thesis
      by (simp add: unavailable_def unavailable_message_def route_request_def postgresql_unavailable io_raise_def)
  next
    case 3
    with assms show ?thesis
      by (simp add: unavailable_def unavailable_message_def route_request_def mysql_unavailable io_raise_def)
  next
    case 4
    with assms show ?thesis
      by (simp add: unavailable_def unavailable_message_def route_request_def mongodb_unavailable io_raise_def)
  qed
qed

text \<open>
  C5 (as amended). For every request that parses, names one of the four supported
  types whose backend is unavailable (its client library is absent, or its \<^verbatim>\<open>enabled\<close>
  entry is falsy), and does not hit the cache: as long as the modification time of the
  source file can be read, the response is the error envelope with the handler's message
  of unavailability, nothing is raised, and the world is left as it was.
\<close>

theorem unavailable_backend:
  assumes "parse_request E raw = Inr request"
    and "unavailable srv E (db_type request)"
    and "\<not> cache_hit srv E raw w"
    and "stat_mtime E = Inr mtime"
  shows "receive_client_request srv E raw w =
           (Inr (PDict [(''status'', PStr ''error''),
                        (''error'', PStr (unavailable_message (db_type request))),
                        (''timestamp'', PStr mtime)]), w)"
  using assms(1-3)
  by (simp add: receive_miss unavailable_route format_error_response_ok[OF assms(4)])

theorem unavailable_backend_witness:
  "unavailable (ex_server all_modules)
     (ex_env (all_modules\<lparr>MYSQL_AVAILABLE := False\<rparr>) (Inr ''1700000000.0'') ex_rows) ''mysql''
   \<and> receive_client_request (ex_server all_modules)
       (ex_env (all_modules\<lparr>MYSQL_AVAILABLE := False\<rparr>) (Inr ''1700000000.0'') ex_rows)
       [(''db_type'', PStr ''MySQL''), (''operation'', PStr ''select''),
        (''query'', PStr ''SELECT name FROM users''), (''cache_key'', PInt 5)] cached_world
     = (Inr (PDict [(''status'', PStr ''error''),
                    (''error'', PStr ''MySQL not available or not enabled''),
                    (''timestamp'', PStr ''1700000000.0'')]), cached_world)"
  using unavailable_backend
          [of "ex_env (all_modules\<lparr>MYSQL_AVAILABLE := False\<rparr>) (Inr ''1700000000.0'') ex_rows"
              "[(''db_type'', PStr ''MySQL''), (''operation'', PStr ''select''),
                (''query'', PStr ''SELECT name FROM users''), (''cache_key'', PInt 5)]"
              "\<lparr> db_type = ''mysql'', operation = PStr ''select'',
                 query = PStr ''SELECT name FROM users'',
                 parameters = PDict [], cache_key = PInt 5 \<rparr>"
              "ex_server all_modules" cached_world "''1700000000.0''"]
  by (simp add: gateway_defs ex_defs str_defs unavailable_def unavailable_message_def)

text \<open>
  C5 as stated fails twice, for the reasons C4 does. With \<^verbatim>\<open>pymysql\<close> absent, a
  \<^verbatim>\<open>mysql\<close> request whose \<^verbatim>\<open>cache_key\<close> has an entry is answered from the cache; the
  key \<^verbatim>\<open>5\<close> names the entry stored under \<^verbatim>\<open>"5"\<close>. And when the source file cannot be
  examined, the exception of \<^verbatim>\<open>_format_error_response\<close> reaches the caller.
\<close>

theorem unavailable_backend_cache_hit:
  "unavailable (ex_server all_modules)
     (ex_env (all_modules\<lparr>MYSQL_AVAILABLE := False\<rparr>) (Inr ''1700000000.0'') ex_rows) ''mysql''
   \<and> fst (receive_client_request (ex_server all_modules)
          (ex_env (all_modules\<lparr>MYSQL_AVAILABLE := False\<rparr>) (Inr ''1700000000.0'') ex_rows)
          [(''db_type'', PStr ''mysql''), (''operation'', PStr ''select''),
           (''query'', PStr ''SELECT name FROM users''),
           (''cache_key'', PInt 5)] cached_world5)
     = Inr (PDict [(''status'', PStr ''success''),
                   (''data'', PList [PDict [(''name'', PStr ''users'')]]),
                   (''from_cache'', PBool True),
                   (''timestamp'', PStr ''1700000000.0'')])
   \<and> fst (receive_client_request (ex_server all_modules)
          (ex_env (all_modules\<lparr>MYSQL_AVAILABLE := False\<rparr>) (Inl no_file) ex_rows)
          [(''db_type'', PStr ''mysql''), (''operation'', PStr ''select''),
           (''query'', PStr ''SELECT name FROM users'')] empty_world)
     = Inl no_file"
  by (simp add: gateway_defs handle_mysql_def io_defs ex_defs str_defs unavailable_def)

section \<open>The cache is best-effort\<close>

text \<open>
  C6. For every request that parses, whatever its \<^verbatim>\<open>cache_key\<close> and whether or not the
  server has a cache client: while the cache store is unreachable (the lookup raises, and
  so does every store), if the backend handler succeeds then the response is the success
  envelope with \<^verbatim>\<open>from_cache\<close> false carrying the handler's result. The failed lookup
  counts as a miss, the failed store is swallowed, and the world after the call is the
  one the handler left.
\<close>

theorem cache_unreachable_falls_through:
  assumes "parse_request E raw = Inr request"
    and "\<not> redis_up (redis w)"
    and "fst (route_request srv E request w) = Inr result"
  shows "(\<exists>e. redis_get w (cache_key request) = Inl e)
       \<and> (\<forall>ttl txt. \<exists>e. redis_setex (snd (route_request srv E request w))
                                    (cache_key request) ttl txt = Inl e)
       \<and> receive_client_request srv E raw w
           = (format_response E result False, snd (route_request srv E request w))
       \<and> (\<forall>mtime. stat_mtime E = Inr mtime \<longrightarrow>
             fst (receive_client_request srv E raw w)
               = Inr (PDict [(''status'', PStr ''success''), (''data'', result),
                             (''from_cache'', PBool False), (''timestamp'', PStr mtime)]))"
proof -
  have get: "\<exists>e. redis_get w (cache_key request) = Inl e"
    using assms(2) by (simp add: redis_get_def split: option.splits)
  have down: "\<not> redis_up (redis (snd (route_request srv E request w)))"
    using assms(2) by (simp add: route_keeps_cache)
  have setex: "\<forall>ttl txt. \<exists>e. redis_setex (snd (route_request srv E request w))
                                      (cache_key request) ttl txt = Inl e"
    using down by (simp add: redis_setex_def split: option.splits)
  have miss: "\<not> cache_hit srv E raw w"
    using assms(1) get
    by (auto simp: cache_hit_def check_cache_def)
  have refused: "\<forall>ttl txt w'. redis_setex (snd (route_request srv E request w))
                                 (cache_key request) ttl txt \<noteq> Inr w'"
    using down by (simp add: redis_setex_def split: option.splits)
  have store: "snd (store_in_cache srv E (cache_key request) result
                      (snd (route_request srv E request w)))
                 = snd (route_request srv E request w)"
    using refused by (auto simp: store_in_cache_def Let_def split: sum.splits)
  have main: "receive_client_request srv E raw w
           = (format_response E result False, snd (route_request srv E request w))"
    using miss store assms(1,3) by (simp add: receive_miss)
  show ?thesis
    using get setex main by (simp add: format_response_def)
qed

theorem cache_unreachable_falls_through_witness:
  "\<not> redis_up (redis down_world)
   \<and> receive_client_request (ex_server all_modules)
       (ex_env all_modules (Inr ''1700000000.0'') ex_rows) select_tables down_world
     = (Inr (PDict [(''status'', PStr ''success''),
                    (''data'', PList [PDict [(''name'', PStr ''users'')]]),
                    (''from_cache'', PBool False),
                    (''timestamp'', PStr ''1700000000.0'')]),
        logged down_world
          [Connect, Execute (PStr ''SELECT name FROM sqlite_master'') (PList []),
           Fetchall, Commit])"
  using cache_unreachable_falls_through
          [of "ex_env all_modules (Inr ''1700000000.0'') ex_rows" select_tables
              select_tables_request down_world "ex_server all_modules"
              "PList [PDict [(''name'', PStr ''users'')]]"]
  by (simp add: gateway_defs handle_sqlite_def io_defs ex_defs str_defs)

section \<open>The timestamp\<close>

lemma receive_timestamp:
  "field (fst (receive_client_request srv E raw w)) ''timestamp''
     = (case stat_mtime E of Inl e \<Rightarrow> None | Inr mtime \<Rightarrow> Some (PStr mtime))"
  by (simp only: receive_response)
     (simp add: field_def format_response_def format_error_response_def split: sum.splits)

text \<open>
  C10 (as amended). The timestamp of every response is the string form of the source
  file's modification time as read during that call, whatever the request, the outcome,
  the cache and the drivers. So two calls whose reads of the modification time agree
  return equal timestamps.
\<close>

theorem timestamp_is_file_mtime:
  assumes "stat_mtime E1 = stat_mtime E2"
  shows "field (fst (receive_client_request srv E1 raw1 w1)) ''timestamp''
           = field (fst (receive_client_request srv E2 raw2 w2)) ''timestamp''
       \<and> field (fst (receive_client_request srv E1 raw1 w1)) ''timestamp''
           = (case stat_mtime E1 of Inl e \<Rightarrow> None | Inr mtime \<Rightarrow> Some (PStr mtime))"
  using assms by (simp add: receive_timestamp)

theorem timestamp_is_file_mtime_witness:
  "field (fst (receive_client_request (ex_server all_modules)
                 (ex_env all_modules (Inr ''1700000000.0'') ex_rows) select_tables
                 empty_world))
         ''timestamp''
     = field (fst (receive_client_request (ex_server all_modules)
                 (ex_env (all_modules\<lparr>MYSQL_AVAILABLE := False\<rparr>) (Inr ''1700000000.0'') [])
                 [(''db_type'', PStr ''mysql''), (''operation'', PStr ''select'')]
                 cached_world))
         ''timestamp''
   \<and> field (fst (receive_client_request (ex_server all_modules)
                 (ex_env all_modules (Inr ''1700000000.0'') ex_rows) select_tables
                 empty_world))
         ''timestamp'' = Some (PStr ''1700000000.0'')"
  using timestamp_is_file_mtime
          [of "ex_env all_modules (Inr ''1700000000.0'') ex_rows"
              "ex_env (all_modules\<lparr>MYSQL_AVAILABLE := False\<rparr>) (Inr ''1700000000.0'') []"
              "ex_server all_modules" select_tables empty_world
              "[(''db_type'', PStr ''mysql''), (''operation'', PStr ''select'')]" cached_world]
  by (simp add: ex_env_def receive_timestamp)

text \<open>
  C10 as stated fails: the modification time is read again at every call, so the same
  request on the same server gets another timestamp once the source file has been
  touched between the two calls.
\<close>

theorem timestamp_follows_file_mtime:
  "field (fst (receive_client_request (ex_server all_modules)
                 (ex_env all_modules (Inr ''1700000000.0'') ex_rows) select_tables
                 empty_world))
         ''timestamp''
   \<noteq> field (fst (receive_client_request (ex_server all_modules)
                 (ex_env all_modules (Inr ''1700000600.0'') ex_rows) select_tables
                 empty_world))
         ''timestamp''"
  by (simp add: gateway_defs handle_sqlite_def io_defs ex_defs str_defs)

section \<open>Read-through caching\<close>

lemma check_cache_fst:
  "fst (check_cache srv E key w) =
     Inr (if \<not> redis_client srv then PNone
          else case redis_get w key of
                 Inl e \<Rightarrow> PNone
               | Inr None \<Rightarrow> PNone
               | Inr (Some cached_data) \<Rightarrow>
                   if cached_data \<noteq> []
                   then (case json_loads E cached_data of Inl e \<Rightarrow> PNone | Inr v \<Rightarrow> v)
                   else PNone)"
  by (simp add: check_cache_def split: sum.splits option.splits)

lemma check_cache_cong:
  assumes "redis w' = redis w"
  shows "fst (check_cache srv E key w') = fst (check_cache srv E key w)"
  by (cases "redis_encode key") (simp_all add: check_cache_fst redis_get_def assms)

lemma cache_hit_cong:
  assumes "redis w' = redis w"
  shows "cache_hit srv E raw w' = cache_hit srv E raw w"
  using check_cache_cong[OF assms] by (simp add: cache_hit_def split: sum.splits)

lemma expire_seconds_encodes:
  "expire_seconds ttl = Some n \<Longrightarrow> \<exists>t. redis_encode ttl = Some t"
  by (cases ttl) simp_all

lemma store_in_cache_stores:
  assumes "redis_client srv" and "subscript (config srv) ''redis'' = Inr sec"
    and "expire_seconds (dict_get sec ''ttl'' (PInt 3600)) = Some n"
    and "0 < n" and "n \<le> redis_max_expire (redis w)"
    and "redis_up (redis w)" and "redis_writable (redis w)"
    and "json_dumps E data = Inr txt" and "redis_encode key = Some k"
  shows "snd (store_in_cache srv E key data w)
           = w\<lparr>redis := (redis w)\<lparr>redis_store := (redis_store (redis w))(k \<mapsto> (n, txt))\<rparr>\<rparr>"
proof -
  obtain t where "redis_encode (dict_get sec ''ttl'' (PInt 3600)) = Some t"
    using expire_seconds_encodes[OF assms(3)] by blast
  then show ?thesis
    using assms by (simp add: store_in_cache_def redis_setex_def Let_def)
qed

lemma check_cache_finds:
  assumes "redis_client srv" and "redis_up (redis w)" and "redis_encode key = Some k"
    and "redis_store (redis w) k = Some (n, txt)"
    and "txt \<noteq> []" and "json_loads E txt = Inr v"
  shows "fst (check_cache srv E key w) = Inr v"
  using assms by (simp add: check_cache_def redis_get_def)

text \<open>
  C2 (as amended). Take a request that carries a truthy \<^verbatim>\<open>cache_key\<close> the cache client
  accepts, on a server with a cache client and a \<^verbatim>\<open>redis\<close> configuration section whose
  time-to-live the store accepts, with the store reachable and writable, such that the
  first lookup misses, the backend's result is truthy, and its serialised text
  deserialises to the same result. Then the first response is the envelope of the
  backend's result with \<^verbatim>\<open>from_cache\<close> false, the identical second request gets the
  envelope of the same result with \<^verbatim>\<open>from_cache\<close> true, and the \<^verbatim>\<open>data\<close> fields of the
  two responses are identical.
\<close>

theorem second_identical_request_hits_cache:
  assumes parse: "parse_request E raw = Inr request"
    and key: "truthy (cache_key request)" "redis_encode (cache_key request) = Some k"
    and client: "redis_client srv" "subscript (config srv) ''redis'' = Inr sec"
    and ttl: "expire_seconds (dict_get sec ''ttl'' (PInt 3600)) = Some n"
             "0 < n" "n \<le> redis_max_expire (redis w)"
    and up: "redis_up (redis w)" "redis_writable (redis w)"
    and miss: "\<not> cache_hit srv E raw w"
    and backend: "fst (route_request srv E request w) = Inr result" "truthy result"
    and codec: "json_dumps E result = Inr txt" "txt \<noteq> []" "json_loads E txt = Inr result"
  shows "fst (receive_client_request srv E raw w) = format_response E result False
       \<and> fst (receive_client_request srv E raw (snd (receive_client_request srv E raw w)))
           = format_response E result True
       \<and> field (fst (receive_client_request srv E raw w)) ''data''
           = field (fst (receive_client_request srv E raw
                           (snd (receive_client_request srv E raw w)))) ''data''
       \<and> (\<forall>mtime. stat_mtime E = Inr mtime \<longrightarrow>
             field (fst (receive_client_request srv E raw w)) ''from_cache''
               = Some (PBool False)
           \<and> field (fst (receive_client_request srv E raw
                           (snd (receive_client_request srv E raw w)))) ''from_cache''
               = Some (PBool True)
           \<and> field (fst (receive_client_request srv E raw w)) ''data'' = Some result)"
proof -
  define w1 where "w1 = snd (route_request srv E request w)"
  define w2 where
    "w2 = w1\<lparr>redis := (redis w1)\<lparr>redis_store := (redis_store (redis w1))(k \<mapsto> (n, txt))\<rparr>\<rparr>"
  have same: "redis w1 = redis w" by (simp add: w1_def route_keeps_cache)
  have stored: "snd (store_in_cache srv E (cache_key request) result w1) = w2"
    unfolding w2_def
    using client ttl(1,2) _ _ _ codec(1) key(2)
    by (rule store_in_cache_stores) (simp_all add: same ttl up)
  have first: "receive_client_request srv E raw w = (format_response E result False, w2)"
    using parse miss backend key(1) client(1) stored by (simp add: receive_miss w1_def)
  have found: "fst (check_cache srv E (cache_key request) w2) = Inr result"
    using client(1) _ key(2) _ codec(2,3)
    by (rule check_cache_finds) (simp_all add: w2_def same up)
  have hit: "cache_hit srv E raw w2"
    using parse key(1) client(1) found backend(2) by (simp add: cache_hit_def)
  have second: "receive_client_request srv E raw w2 = (format_response E result True, w2)"
    using parse hit found by (simp add: receive_hit)
  show ?thesis
    using first second by (simp add: format_response_def field_def split: sum.splits)
qed

theorem second_identical_request_hits_cache_witness:
  "\<not> cache_hit (ex_server all_modules) (ex_env all_modules (Inr ''1700000000.0'') ex_rows)
       select_tables empty_world
   \<and> fst (receive_client_request (ex_server all_modules)
            (ex_env all_modules (Inr ''1700000000.0'') ex_rows) select_tables empty_world)
     = Inr (PDict [(''status'', PStr ''success''),
                   (''data'', PList [PDict [(''name'', PStr ''users'')]]),
                   (''from_cache'', PBool False),
                   (''timestamp'', PStr ''1700000000.0'')])
   \<and> fst (receive_client_request (ex_server all_modules)
            (ex_env all_modules (Inr ''1700000000.0'') ex_rows) select_tables
            (snd (receive_client_request (ex_server all_modules)
                    (ex_env all_modules (Inr ''1700000000.0'') ex_rows) select_tables
                    empty_world)))
     = Inr (PDict [(''status'', PStr ''success''),
                   (''data'', PList [PDict [(''name'', PStr ''users'')]]),
                   (''from_cache'', PBool True),
                   (''timestamp'', PStr ''1700000000.0'')])"
  using second_identical_request_hits_cache
          [of "ex_env all_modules (Inr ''1700000000.0'') ex_rows" select_tables
              select_tables_request "''tables''" "ex_server all_modules"
              "[(''enabled'', PBool True), (''host'', PStr ''localhost''),
                (''port'', PInt 6379), (''ttl'', PInt 3600)]"
              3600 empty_world "PList [PDict [(''name'', PStr ''users'')]]" ex_text]
  by (simp add: gateway_defs handle_sqlite_def io_defs ex_defs str_defs)

text \<open>
  C2 as stated fails in four ways. A read that finds nothing is not stored (the empty
  list is falsy), so the identical second request is served by the backend again. A row
  with a \<^verbatim>\<open>datetime\<close> comes back from the cache with a string in its place, so the two
  \<^verbatim>\<open>data\<close> fields differ. With a time-to-live of zero in the configuration the store
  refuses the entry, and the second request is served by the backend. And when another
  request has left an entry under the key, already the first response comes from the
  cache.
\<close>

theorem empty_result_is_fetched_twice:
  "field (fst (receive_client_request (ex_server all_modules)
            (ex_env all_modules (Inr ''1700000000.0'') []) select_tables
            (snd (receive_client_request (ex_server all_modules)
                    (ex_env all_modules (Inr ''1700000000.0'') []) select_tables
                    empty_world)))) ''from_cache''
     = Some (PBool False)
   \<and> field (fst (receive_client_request (ex_server all_modules)
            (ex_env all_modules (Inr ''1700000000.0'') dated_rows)
            [(''db_type'', PStr ''postgresql''), (''operation'', PStr ''select''),
             (''query'', PStr ''SELECT name FROM users''), (''cache_key'', PStr ''k'')]
            empty_world)) ''data''
     = Some (PList [PDict [(''name'', PObj ''datetime'' ''2024-05-01 10:00:00'')]])
   \<and> field (fst (receive_client_request (ex_server all_modules)
            (ex_env all_modules (Inr ''1700000000.0'') dated_rows)
            [(''db_type'', PStr ''postgresql''), (''operation'', PStr ''select''),
             (''query'', PStr ''SELECT name FROM users''), (''cache_key'', PStr ''k'')]
            (snd (receive_client_request (ex_server all_modules)
                    (ex_env all_modules (Inr ''1700000000.0'') dated_rows)
                    [(''db_type'', PStr ''postgresql''), (''operation'', PStr ''select''),
                     (''query'', PStr ''SELECT name FROM users''),
                     (''cache_key'', PStr ''k'')]
                    empty_world)))) ''data''
     = Some (PList [PDict [(''name'', PStr ''2024-05-01 10:00:00'')]])
   \<and> field (fst (receive_client_request ttl0_server
            (ex_env all_modules (Inr ''1700000000.0'') ex_rows) select_tables
            (snd (receive_client_request ttl0_server
                    (ex_env all_modules (Inr ''1700000000.0'') ex_rows) select_tables
                    empty_world)))) ''from_cache''
     = Some (PBool False)
   \<and> field (fst (receive_client_request (ex_server all_modules)
            (ex_env all_modules (Inr ''1700000000.0'') ex_rows) select_tables
            cached_world)) ''from_cache''
     = Some (PBool True)"
  by (simp add: gateway_defs handle_sqlite_def handle_postgresql_def io_defs ex_defs str_defs)

lemma repeat_request_falsy:
  assumes parse: "parse_request E raw = Inr request"
    and backend: "fst (route_request srv E request w0) = Inr result" "\<not> truthy result"
  shows "\<not> cache_hit srv E raw w \<Longrightarrow>
         fst (repeat_request n srv E raw w) = replicate n (format_response E result False)
       \<and> redis (snd (repeat_request n srv E raw w)) = redis w"
proof (induction n arbitrary: w)
  case 0
  then show ?case by simp
next
  case (Suc n)
  define w1 where "w1 = snd (route_request srv E request w)"
  have r: "fst (route_request srv E request w) = Inr result"
    using backend(1) route_result_fixed[of srv E request w w0] by simp
  have step: "receive_client_request srv E raw w = (format_response E result False, w1)"
    using parse Suc.prems r backend(2) by (simp add: receive_miss w1_def)
  have same: "redis w1 = redis w"
    by (simp add: w1_def route_keeps_cache)
  have "\<not> cache_hit srv E raw w1"
    using Suc.prems cache_hit_cong[OF same] by simp
  from Suc.IH[OF this] show ?case
    using step same by (simp add: case_prod_beta)
qed

text \<open>
  C9 (as amended). Take a request that carries a truthy \<^verbatim>\<open>cache_key\<close>, on a server
  with a cache client, whose lookup yields nothing or a falsy cached value, and whose
  backend result is falsy. Then the lookup counts as a miss, the result is not written to
  the cache, and however often the request is repeated every response is the envelope of
  the backend's result with \<^verbatim>\<open>from_cache\<close> false and the store stays as it was.
\<close>

theorem falsy_result_is_never_cached:
  assumes "parse_request E raw = Inr request"
    and "truthy (cache_key request)" and "redis_client srv"
    and "fst (check_cache srv E (cache_key request) w) = Inr cached" and "\<not> truthy cached"
    and "fst (route_request srv E request w) = Inr result" and "\<not> truthy result"
  shows "fst (repeat_request n srv E raw w) = replicate n (format_response E result False)
       \<and> redis_store (redis (snd (repeat_request n srv E raw w))) = redis_store (redis w)"
proof -
  have "\<not> cache_hit srv E raw w"
    using assms(1,4,5) by (simp add: cache_hit_def)
  from repeat_request_falsy[OF assms(1) assms(6) assms(7) this] show ?thesis by simp
qed

theorem falsy_result_is_never_cached_witness:
  "fst (check_cache (ex_server all_modules) (ex_env all_modules (Inr ''1700000000.0'') [])
          (PStr ''tables'')
          (empty_world\<lparr>redis := ex_redis [''tables'' \<mapsto> (3600, ''[]'')]\<rparr>))
     = Inr (PList [])
   \<and> fst (repeat_request (Suc (Suc 0)) (ex_server all_modules)
            (ex_env all_modules (Inr ''1700000000.0'') []) select_tables
            (empty_world\<lparr>redis := ex_redis [''tables'' \<mapsto> (3600, ''[]'')]\<rparr>))
     = [Inr (PDict [(''status'', PStr ''success''), (''data'', PList []),
                    (''from_cache'', PBool False), (''timestamp'', PStr ''1700000000.0'')]),
        Inr (PDict [(''status'', PStr ''success''), (''data'', PList []),
                    (''from_cache'', PBool False), (''timestamp'', PStr ''1700000000.0'')])]"
  using falsy_result_is_never_cached
          [of "ex_env all_modules (Inr ''1700000000.0'') []" select_tables
              select_tables_request "ex_server all_modules"
              "empty_world\<lparr>redis := ex_redis [''tables'' \<mapsto> (3600, ''[]'')]\<rparr>"
              "PList []" "PList []" "Suc (Suc 0)"]
  by (simp add: gateway_defs handle_sqlite_def io_defs ex_defs str_defs)

text \<open>
  C9 as stated fails where it says that such a request is never answered from the
  cache: the key is the caller's, so an entry that another request left under it is
  served, although the backend would return no rows. Here the request carries the key
  \<^verbatim>\<open>5\<close> and the entry was stored under \<^verbatim>\<open>"5"\<close>.
\<close>

theorem cached_entry_answers_for_empty_result:
  "fst (route_request (ex_server all_modules) (ex_env all_modules (Inr ''1700000000.0'') [])
          \<lparr> db_type = ''sqlite'', operation = PStr ''select'',
            query = PStr ''SELECT name FROM sqlite_master'',
            parameters = PDict [], cache_key = PInt 5 \<rparr> cached_world5)
     = Inr (PList [])
   \<and> fst (receive_client_request (ex_server all_modules)
            (ex_env all_modules (Inr ''1700000000.0'') [])
            [(''db_type'', PStr ''sqlite''), (''operation'', PStr ''select''),
             (''query'', PStr ''SELECT name FROM sqlite_master''),
             (''cache_key'', PInt 5)] cached_world5)
     = Inr (PDict [(''status'', PStr ''success''),
                   (''data'', PList [PDict [(''name'', PStr ''users'')]]),
                   (''from_cache'', PBool True),
                   (''timestamp'', PStr ''1700000000.0'')])"
  by (simp add: gateway_defs handle_sqlite_def io_defs ex_defs str_defs)

section \<open>Read or write in the relational handlers\<close>

lemma is_select_strings:
  assumes "operation request = PStr op" and "query request = PStr q"
  shows "is_select E request = Inr (select_condition E op q)"
  using assms by (simp add: is_select_def select_condition_def)

text \<open>
  What each handler does for a request with a string operation and a string query when
  its backend is ready: the calls it makes and its outcome, on both sides of the
  condition.
\<close>

lemma sqlite_outcome:
  assumes op: "operation request = PStr op" and q: "query request = PStr q"
    and ready: "sqlite_ready srv E request cur"
  shows "handle_sqlite srv E request w =
     (if select_condition E op q
      then (case fetchall cur of
              Inl e \<Rightarrow>
                (Inl e, logged w [Connect,
                                  Execute (PStr q) (py_or (parameters request) (PList [])),
                                  Fetchall, Rollback])
            | Inr rows \<Rightarrow>
                (Inr (PList (map PDict rows)),
                 logged w [Connect,
                           Execute (PStr q) (py_or (parameters request) (PList [])),
                           Fetchall, Commit]))
      else (Inr (PDict [(''affected_rows'', rowcount cur), (''lastrowid'', lastrowid cur)]),
            logged w [Connect, Execute (PStr q) (py_or (parameters request) (PList [])),
                      Commit, Commit]))"
proof -
  from ready obtain enabled db_path where facts:
    "config_item (config srv) ''sqlite'' ''enabled'' = Inr enabled" "truthy enabled"
    "config_item (config srv) ''sqlite'' ''db_path'' = Inr db_path"
    "makedirs_dirname E db_path = None" "drv_connect (sqlite3 E) [db_path] = None"
    "drv_execute (sqlite3 E) (PStr q) (py_or (parameters request) (PList [])) = Inr cur"
    "drv_commit (sqlite3 E) = None"
    by (auto simp: sqlite_ready_def enabled_in_def q split: sum.splits)
  show ?thesis
    by (simp add: handle_sqlite_def io_defs facts is_select_strings[OF op q] q logged_def
             split: sum.splits)
qed

lemma postgresql_outcome:
  assumes op: "operation request = PStr op" and q: "query request = PStr q"
    and ready: "postgresql_ready srv E request cur"
  shows "handle_postgresql srv E request w =
     (if select_condition E op q
      then (case fetchall cur of
              Inl e \<Rightarrow> Inl e
            | Inr rows \<Rightarrow> Inr (PList (map PDict rows)),
            logged w [Connect, Execute (PStr q) (parameters request), Fetchall, Close])
      else (Inr (PDict [(''affected_rows'', rowcount cur)]),
            logged w [Connect, Execute (PStr q) (parameters request), Commit, Close]))"
proof -
  from ready obtain enabled c host port database user password where facts:
    "POSTGRESQL_AVAILABLE (mods E)" "RealDictCursor_found (mods E)"
    "config_item (config srv) ''postgresql'' ''enabled'' = Inr enabled" "truthy enabled"
    "map_of (config srv) ''postgresql'' = Some c"
    "map_of c ''host'' = Some host" "map_of c ''port'' = Some port"
    "map_of c ''database'' = Some database" "map_of c ''user'' = Some user"
    "map_of c ''password'' = Some password"
    "drv_connect (psycopg2 E) [host, port, database, user, password] = None"
    "drv_execute (psycopg2 E) (PStr q) (parameters request) = Inr cur"
    "drv_commit (psycopg2 E) = None"
    by (auto simp: postgresql_ready_def enabled_in_def q split: sum.splits option.splits)
  show ?thesis
    by (simp add: handle_postgresql_def io_defs subscript_def facts
                  is_select_strings[OF op q] q logged_def
             split: sum.splits)
qed

lemma mysql_outcome:
  assumes op: "operation request = PStr op" and q: "query request = PStr q"
    and ready: "mysql_ready srv E request cur"
  shows "handle_mysql srv E request w =
     (if select_condition E op q
      then (case description cur of
              None \<Rightarrow>
                (Inl (TypeError (quote # ''NoneType'' @ [quote] @ '' object is not iterable'')),
                 logged w [Connect, Execute (PStr q) (parameters request), Close])
            | Some columns \<Rightarrow>
                (case fetchall cur of
                   Inl e \<Rightarrow> Inl e
                 | Inr rows \<Rightarrow>
                     Inr (PList (map (\<lambda>row. PDict (dict_of_pairs (zip columns row))) rows)),
                 logged w [Connect, Execute (PStr q) (parameters request), Fetchall, Close]))
      else (Inr (PDict [(''affected_rows'', rowcount cur)]),
            logged w [Connect, Execute (PStr q) (parameters request), Commit, Close]))"
proof -
  from ready obtain enabled c host port database user password where facts:
    "MYSQL_AVAILABLE (mods E)"
    "config_item (config srv) ''mysql'' ''enabled'' = Inr enabled" "truthy enabled"
    "map_of (config srv) ''mysql'' = Some c"
    "map_of c ''host'' = Some host" "map_of c ''port'' = Some port"
    "map_of c ''database'' = Some database" "map_of c ''user'' = Some user"
    "map_of c ''password'' = Some password"
    "drv_connect (pymysql E) [host, port, user, password, database] = None"
    "drv_execute (pymysql E) (PStr q) (parameters request) = Inr cur"
    "drv_commit (pymysql E) = None"
    by (auto simp: mysql_ready_def enabled_in_def q split: sum.splits option.splits)
  show ?thesis
    by (simp add: handle_mysql_def io_defs subscript_def facts
                  is_select_strings[OF op q] q logged_def
             split: sum.splits option.splits)
qed

text \<open>
  \<^verbatim>\<open>dict(zip(columns, row))\<close> for distinct column names is the row keyed by its
  columns, in their order.
\<close>

lemma update_fresh: "k \<notin> fst ` set d \<Longrightarrow> AList.update k v d = d @ [(k, v)]"
  by (induction d) auto

lemma foldl_update_distinct:
  "distinct (map fst (d @ ps)) \<Longrightarrow>
   foldl (\<lambda>d (k, v). AList.update k v d) d ps = d @ ps"
proof (induction ps arbitrary: d)
  case Nil
  then show ?case by simp
next
  case (Cons p ps)
  obtain k v where p: "p = (k, v)" by (cases p)
  have fresh: "k \<notin> fst ` set d" using Cons.prems p by auto
  have "distinct (map fst ((d @ [(k, v)]) @ ps))" using Cons.prems p by simp
  from Cons.IH[OF this] show ?case by (simp add: p update_fresh[OF fresh])
qed

lemma dict_of_pairs_distinct:
  assumes "distinct columns"
  shows "dict_of_pairs (zip columns row) = zip columns row"
proof -
  have "distinct (map fst (zip columns row))"
    using assms by (simp add: map_fst_zip_take)
  then show ?thesis
    using foldl_update_distinct[of "[]" "zip columns row"] by (simp add: dict_of_pairs_def)
qed

text \<open>When a computation returns a value: one equation per primitive.\<close>

lemma io_bind_Inr:
  "(io_bind m f w = (Inr r, w')) = (\<exists>v w1. m w = (Inr v, w1) \<and> f v w1 = (Inr r, w'))"
  by (auto simp: io_bind_def split: prod.splits sum.splits)

lemma io_lift_Inr: "(io_lift x w = (Inr v, w')) = (x = Inr v \<and> w' = w)"
  by (auto simp: io_lift_def)

lemma io_return_Inr: "(io_return x w = (Inr v, w')) = (x = v \<and> w' = w)"
  by (auto simp: io_return_def)

lemma io_raise_Inr: "(io_raise e w = (Inr v, w')) = False"
  by (auto simp: io_raise_def)

lemma io_check_Inr: "(io_check outcome w = (Inr v, w')) = (outcome = None \<and> w' = w)"
  by (auto simp: io_check_def io_lift_def split: option.splits)

lemma db_do_Inr:
  "(db_do c outcome w = (Inr v, w')) = (outcome = None \<and> w' = w\<lparr>db_calls := db_calls w @ [c]\<rparr>)"
  by (auto simp: db_do_def split: option.splits)

lemma db_execute_Inr:
  "(db_execute drv q ps w = (Inr cur, w')) =
     (drv_execute drv q ps = Inr cur \<and> w' = w\<lparr>db_calls := db_calls w @ [Execute q ps]\<rparr>)"
  by (auto simp: db_execute_def)

lemma db_fetchall_Inr:
  "(db_fetchall cur w = (Inr rows, w')) =
     (fetchall cur = Inr rows \<and> w' = w\<lparr>db_calls := db_calls w @ [Fetchall]\<rparr>)"
  by (auto simp: db_fetchall_def)

lemma with_connection_Inr:
  "(with_connection drv body w = (Inr r, w')) =
     (\<exists>w1. body w = (Inr r, w1) \<and> drv_commit drv = None
           \<and> w' = w1\<lparr>db_calls := db_calls w1 @ [Commit]\<rparr>)"
  by (auto simp: with_connection_def db_do_def split: prod.splits sum.splits option.splits)

lemma finally_close_Inr:
  "(finally_close body w = (Inr r, w')) =
     (\<exists>w1. body w = (Inr r, w1) \<and> w' = w1\<lparr>db_calls := db_calls w1 @ [Close]\<rparr>)"
  by (auto simp: finally_close_def split: prod.splits)

lemmas io_Inr = io_bind_Inr io_lift_Inr io_return_Inr io_raise_Inr io_check_Inr db_do_Inr
  db_execute_Inr db_fetchall_Inr with_connection_Inr finally_close_Inr

lemma sqlite_path:
  assumes "operation request = PStr op" and "query request = PStr q"
    and "handle_sqlite srv E request w = (Inr result, w')"
  shows "if select_condition E op q
         then (\<exists>rows. result = PList (map PDict rows))
            \<and> (\<exists>ps. db_calls w' = db_calls w @ [Connect, Execute (PStr q) ps, Fetchall, Commit])
         else (\<exists>n rest. result = PDict ((''affected_rows'', n) # rest))
            \<and> (\<exists>ps. db_calls w' = db_calls w @ [Connect, Execute (PStr q) ps, Commit, Commit])"
  using assms(3) unfolding handle_sqlite_def is_select_strings[OF assms(1,2)]
  by (auto simp: io_Inr assms(2) split: if_splits)

lemma postgresql_path:
  assumes "operation request = PStr op" and "query request = PStr q"
    and "handle_postgresql srv E request w = (Inr result, w')"
  shows "if select_condition E op q
         then (\<exists>rows. result = PList (map PDict rows))
            \<and> (\<exists>ps. db_calls w' = db_calls w @ [Connect, Execute (PStr q) ps, Fetchall, Close])
         else (\<exists>n rest. result = PDict ((''affected_rows'', n) # rest))
            \<and> (\<exists>ps. db_calls w' = db_calls w @ [Connect, Execute (PStr q) ps, Commit, Close])"
  using assms(3) unfolding handle_postgresql_def is_select_strings[OF assms(1,2)]
  by (auto simp: io_Inr assms(2) split: if_splits)

lemma mysql_path:
  assumes "operation request = PStr op" and "query request = PStr q"
    and "handle_mysql srv E request w = (Inr result, w')"
  shows "if select_condition E op q
         then (\<exists>rows. result = PList (map PDict rows))
            \<and> (\<exists>ps. db_calls w' = db_calls w @ [Connect, Execute (PStr q) ps, Fetchall, Close])
         else (\<exists>n rest. result = PDict ((''affected_rows'', n) # rest))
            \<and> (\<exists>ps. db_calls w' = db_calls w @ [Connect, Execute (PStr q) ps, Commit, Close])"
proof -
  have rows: "\<exists>rows'. PList (map (\<lambda>row. PDict (dict_of_pairs (zip columns row))) rows)
                   = PList (map PDict rows')"
    for columns :: "string list" and rows :: "pyval list list"
    by (rule exI[where x = "map (\<lambda>row. dict_of_pairs (zip columns row)) rows"])
       (simp add: comp_def)
  show ?thesis
    using assms(3) rows unfolding handle_mysql_def is_select_strings[OF assms(1,2)]
    by (auto simp: io_Inr assms(2) split: if_splits option.splits)
qed

text \<open>
  C3. For every request routed to a relational backend (\<^verbatim>\<open>sqlite\<close>, \<^verbatim>\<open>postgresql\<close> or
  \<^verbatim>\<open>mysql\<close>) whose operation and query are strings, with the backend ready: if the
  operation lower-cased equals \<^verbatim>\<open>select\<close> or the query lower-cased starts with
  \<^verbatim>\<open>select\<close>, the handler executes the query, fetches the rows and returns them as the
  list of mappings keyed by column name; in every other case it executes the query,
  commits, and returns the summary mapping with \<^verbatim>\<open>affected_rows\<close>. Whenever the handler
  returns, its result is a list of rows if and only if the condition holds. (The last
  call is the commit of the SQLite context manager, or the close of the connection; a
  fetch that raises, or a \<^verbatim>\<open>pymysql\<close> cursor without a description, ends the read path
  with the exception.)
\<close>

theorem relational_read_or_write_path:
  assumes "operation request = PStr op" and "query request = PStr q"
  shows
    "(db_type request = ''sqlite'' \<and> sqlite_ready srv E request cur \<longrightarrow>
        route_request srv E request w =
          (if select_condition E op q
           then (case fetchall cur of
                   Inl e \<Rightarrow>
                     (Inl e,
                      logged w [Connect,
                                Execute (PStr q) (py_or (parameters request) (PList [])),
                                Fetchall, Rollback])
                 | Inr rows \<Rightarrow>
                     (Inr (PList (map PDict rows)),
                      logged w [Connect,
                                Execute (PStr q) (py_or (parameters request) (PList [])),
                                Fetchall, Commit]))
           else (Inr (PDict [(''affected_rows'', rowcount cur),
                             (''lastrowid'', lastrowid cur)]),
                 logged w [Connect,
                           Execute (PStr q) (py_or (parameters request) (PList [])),
                           Commit, Commit])))
   \<and> (db_type request = ''postgresql'' \<and> postgresql_ready srv E request cur \<longrightarrow>
        route_request srv E request w =
          (if select_condition E op q
           then (case fetchall cur of
                   Inl e \<Rightarrow> Inl e
                 | Inr rows \<Rightarrow> Inr (PList (map PDict rows)),
                 logged w [Connect, Execute (PStr q) (parameters request), Fetchall, Close])
           else (Inr (PDict [(''affected_rows'', rowcount cur)]),
                 logged w [Connect, Execute (PStr q) (parameters request), Commit, Close])))
   \<and> (db_type request = ''mysql'' \<and> mysql_ready srv E request mcur \<longrightarrow>
        route_request srv E request w =
          (if select_condition E op q
           then (case description mcur of
                   None \<Rightarrow>
                     (Inl (TypeError (quote # ''NoneType'' @ [quote]
                                      @ '' object is not iterable'')),
                      logged w [Connect, Execute (PStr q) (parameters request), Close])
                 | Some columns \<Rightarrow>
                     (case fetchall mcur of
                        Inl e \<Rightarrow> Inl e
                      | Inr rows \<Rightarrow>
                          Inr (PList (map (\<lambda>row. PDict (dict_of_pairs (zip columns row)))
                                          rows)),
                      logged w [Connect, Execute (PStr q) (parameters request),
                                Fetchall, Close]))
           else (Inr (PDict [(''affected_rows'', rowcount mcur)]),
                 logged w [Connect, Execute (PStr q) (parameters request), Commit, Close])))
   \<and> (distinct columns \<longrightarrow> dict_of_pairs (zip columns row) = zip columns row)
   \<and> ((db_type request = ''sqlite'' \<or> db_type request = ''postgresql''
        \<or> db_type request = ''mysql'')
       \<and> route_request srv E request w = (Inr result, w') \<longrightarrow>
        (\<exists>rows. result = PList (map PDict rows)) = select_condition E op q)"
proof -
  have sqlite: "db_type request = ''sqlite'' \<Longrightarrow>
                route_request srv E request = handle_sqlite srv E request"
    and postgresql: "db_type request = ''postgresql'' \<Longrightarrow>
                route_request srv E request = handle_postgresql srv E request"
    and mysql: "db_type request = ''mysql'' \<Longrightarrow>
                route_request srv E request = handle_mysql srv E request"
    by (simp_all add: route_request_def)
  have returned:
    "(\<exists>rows. result = PList (map PDict rows)) = select_condition E op q"
    if t: "db_type request = ''sqlite'' \<or> db_type request = ''postgresql''
           \<or> db_type request = ''mysql''"
      and r: "route_request srv E request w = (Inr result, w')"
  proof -
    have path:
      "if select_condition E op q
       then (\<exists>rows. result = PList (map PDict rows))
       else (\<exists>n rest. result = PDict ((''affected_rows'', n) # rest))"
    proof -
      consider "db_type request = ''sqlite''" | "db_type request = ''postgresql''"
        | "db_type request = ''mysql''"
        using t by blast
      then show ?thesis
      proof cases
        case 1
        with r have "handle_sqlite srv E request w = (Inr result, w')"
          by (simp add: sqlite)
        from sqlite_path[OF assms this] show ?thesis by (simp split: if_splits)
      next
        case 2
        with r have "handle_postgresql srv E request w = (Inr result, w')"
          by (simp add: postgresql)
        from postgresql_path[OF assms this] show ?thesis by (simp split: if_splits)
      next
        case 3
        with r have "handle_mysql srv E request w = (Inr result, w')"
          by (simp add: mysql)
        from mysql_path[OF assms this] show ?thesis by (simp split: if_splits)
      qed
    qed
    show ?thesis
    proof (cases "select_condition E op q")
      case True
      with path show ?thesis by simp
    next
      case False
      with path have "\<exists>n rest. result = PDict ((''affected_rows'', n) # rest)" by simp
      then have "\<not> (\<exists>rows. result = PList (map PDict rows))" by auto
      with False show ?thesis by simp
    qed
  qed
  show ?thesis
    apply (intro conjI impI)
    subgoal using sqlite_outcome[OF assms, of srv E cur w] by (simp add: sqlite)
    subgoal using postgresql_outcome[OF assms, of srv E cur w] by (simp add: postgresql)
    subgoal using mysql_outcome[OF assms, of srv E mcur w] by (simp add: mysql)
    subgoal by (rule dict_of_pairs_distinct)
    subgoal using returned by blast
    done
qed

theorem relational_read_or_write_path_witness:
  "sqlite_ready (ex_server all_modules) (ex_env all_modules (Inr ''1700000000.0'') ex_rows)
     \<lparr> db_type = ''sqlite'', operation = PStr ''run'',
       query = PStr ''Select name from users'', parameters = PNone, cache_key = PNone \<rparr>
     \<lparr> description = Some [''name''], fetchall = Inr ex_rows,
       rowcount = PInt (- 1), lastrowid = PInt 0 \<rparr>
   \<and> route_request (ex_server all_modules) (ex_env all_modules (Inr ''1700000000.0'') ex_rows)
     \<lparr> db_type = ''sqlite'', operation = PStr ''run'',
       query = PStr ''Select name from users'', parameters = PNone, cache_key = PNone \<rparr> empty_world
   = (Inr (PList [PDict [(''name'', PStr ''users'')]]),
      logged empty_world
        [Connect, Execute (PStr ''Select name from users'') (PList []), Fetchall, Commit])
   \<and> postgresql_ready (ex_server all_modules) (ex_env all_modules (Inr ''1700000000.0'') ex_rows)
     \<lparr> db_type = ''postgresql'', operation = PStr ''UPDATE'',
       query = PStr ''UPDATE users SET name = %s'', parameters = PList [PStr ''ada''],
       cache_key = PNone \<rparr>
     \<lparr> description = None, fetchall = Inr [], rowcount = PInt 1, lastrowid = PInt 7 \<rparr>
   \<and> route_request (ex_server all_modules) (ex_env all_modules (Inr ''1700000000.0'') ex_rows)
     \<lparr> db_type = ''postgresql'', operation = PStr ''UPDATE'',
       query = PStr ''UPDATE users SET name = %s'', parameters = PList [PStr ''ada''],
       cache_key = PNone \<rparr> empty_world
   = (Inr (PDict [(''affected_rows'', PInt 1)]),
      logged empty_world
        [Connect, Execute (PStr ''UPDATE users SET name = %s'') (PList [PStr ''ada'']),
         Commit, Close])
   \<and> mysql_ready (ex_server all_modules) (ex_env all_modules (Inr ''1700000000.0'') ex_rows)
     \<lparr> db_type = ''mysql'', operation = PStr ''Select'',
       query = PStr ''SELECT name FROM users'', parameters = PNone, cache_key = PNone \<rparr>
     \<lparr> description = Some [''name''], fetchall = Inr [[PStr ''users'']],
       rowcount = PInt (- 1), lastrowid = PInt 0 \<rparr>
   \<and> route_request (ex_server all_modules) (ex_env all_modules (Inr ''1700000000.0'') ex_rows)
     \<lparr> db_type = ''mysql'', operation = PStr ''Select'',
       query = PStr ''SELECT name FROM users'', parameters = PNone, cache_key = PNone \<rparr> empty_world
   = (Inr (PList [PDict [(''name'', PStr ''users'')]]),
      logged empty_world
        [Connect, Execute (PStr ''SELECT name FROM users'') PNone, Fetchall, Close])"
proof -
  have s: "sqlite_ready (ex_server all_modules) (ex_env all_modules (Inr ''1700000000.0'') ex_rows)
     \<lparr> db_type = ''sqlite'', operation = PStr ''run'',
       query = PStr ''Select name from users'', parameters = PNone, cache_key = PNone \<rparr>
     \<lparr> description = Some [''name''], fetchall = Inr ex_rows,
       rowcount = PInt (- 1), lastrowid = PInt 0 \<rparr>"
    by (simp add: sqlite_ready_def config_item_def subscript_def dict_get_def py_or_def enabled_in_def ex_defs str_defs)
  have p: "postgresql_ready (ex_server all_modules) (ex_env all_modules (Inr ''1700000000.0'') ex_rows)
     \<lparr> db_type = ''postgresql'', operation = PStr ''UPDATE'',
       query = PStr ''UPDATE users SET name = %s'', parameters = PList [PStr ''ada''],
       cache_key = PNone \<rparr>
     \<lparr> description = None, fetchall = Inr [], rowcount = PInt 1, lastrowid = PInt 7 \<rparr>"
    by (simp add: postgresql_ready_def config_item_def subscript_def dict_get_def py_or_def enabled_in_def ex_defs str_defs)
  have m: "mysql_ready (ex_server all_modules) (ex_env all_modules (Inr ''1700000000.0'') ex_rows)
     \<lparr> db_type = ''mysql'', operation = PStr ''Select'',
       query = PStr ''SELECT name FROM users'', parameters = PNone, cache_key = PNone \<rparr>
     \<lparr> description = Some [''name''], fetchall = Inr [[PStr ''users'']],
       rowcount = PInt (- 1), lastrowid = PInt 0 \<rparr>"
    by (simp add: mysql_ready_def config_item_def subscript_def dict_get_def py_or_def enabled_in_def ex_defs str_defs)
  have cond: "select_condition (ex_env all_modules (Inr ''1700000000.0'') ex_rows) ''run'' ''Select name from users''"
    "\<not> select_condition (ex_env all_modules (Inr ''1700000000.0'') ex_rows) ''UPDATE'' ''UPDATE users SET name = %s''"
    "select_condition (ex_env all_modules (Inr ''1700000000.0'') ex_rows) ''Select'' ''SELECT name FROM users''"
    by (simp_all add: select_condition_def str_defs ex_env_def)
  have rs: "route_request (ex_server all_modules) (ex_env all_modules (Inr ''1700000000.0'') ex_rows)
     \<lparr> db_type = ''sqlite'', operation = PStr ''run'',
       query = PStr ''Select name from users'', parameters = PNone, cache_key = PNone \<rparr> empty_world
   = (Inr (PList [PDict [(''name'', PStr ''users'')]]),
      logged empty_world
        [Connect, Execute (PStr ''Select name from users'') (PList []), Fetchall, Commit])"
    using relational_read_or_write_path
          [of "\<lparr> db_type = ''sqlite'', operation = PStr ''run'',
       query = PStr ''Select name from users'', parameters = PNone, cache_key = PNone \<rparr>"
              "''run''" "''Select name from users''"
              "ex_server all_modules" "ex_env all_modules (Inr ''1700000000.0'') ex_rows"
              "\<lparr> description = Some [''name''], fetchall = Inr ex_rows,
       rowcount = PInt (- 1), lastrowid = PInt 0 \<rparr>"
              empty_world] s cond
    by (simp add: py_or_def ex_rows_def)
  have rp: "route_request (ex_server all_modules) (ex_env all_modules (Inr ''1700000000.0'') ex_rows)
     \<lparr> db_type = ''postgresql'', operation = PStr ''UPDATE'',
       query = PStr ''UPDATE users SET name = %s'', parameters = PList [PStr ''ada''],
       cache_key = PNone \<rparr> empty_world
   = (Inr (PDict [(''affected_rows'', PInt 1)]),
      logged empty_world
        [Connect, Execute (PStr ''UPDATE users SET name = %s'') (PList [PStr ''ada'']),
         Commit, Close])"
    using relational_read_or_write_path
          [of "\<lparr> db_type = ''postgresql'', operation = PStr ''UPDATE'',
       query = PStr ''UPDATE users SET name = %s'', parameters = PList [PStr ''ada''],
       cache_key = PNone \<rparr>"
              "''UPDATE''" "''UPDATE users SET name = %s''"
              "ex_server all_modules" "ex_env all_modules (Inr ''1700000000.0'') ex_rows"
              "\<lparr> description = None, fetchall = Inr [], rowcount = PInt 1, lastrowid = PInt 7 \<rparr>"
              empty_world] p cond
    by simp
  have rm: "route_request (ex_server all_modules) (ex_env all_modules (Inr ''1700000000.0'') ex_rows)
     \<lparr> db_type = ''mysql'', operation = PStr ''Select'',
       query = PStr ''SELECT name FROM users'', parameters = PNone, cache_key = PNone \<rparr> empty_world
   = (Inr (PList [PDict [(''name'', PStr ''users'')]]),
      logged empty_world
        [Connect, Execute (PStr ''SELECT name FROM users'') PNone, Fetchall, Close])"
    using relational_read_or_write_path
          [of "\<lparr> db_type = ''mysql'', operation = PStr ''Select'',
       query = PStr ''SELECT name FROM users'', parameters = PNone, cache_key = PNone \<rparr>"
              "''Select''" "''SELECT name FROM users''"
              "ex_server all_modules" "ex_env all_modules (Inr ''1700000000.0'') ex_rows"
              "\<lparr> description = None, fetchall = Inr [], rowcount = PInt 1, lastrowid = PInt 7 \<rparr>"
              empty_world
              "\<lparr> description = Some [''name''], fetchall = Inr [[PStr ''users'']],
       rowcount = PInt (- 1), lastrowid = PInt 0 \<rparr>"
              "[''name'']" "[PStr ''users'']"] m cond
    by simp
  from s rs p rp m rm show ?thesis by simp
qed

section \<open>Operations of the document store\<close>

text \<open>
  C7. The claim says that an operation equal to the backend's read marker in any letter
  case is a read. The relational handlers lower-case the operation before comparing it
  (see \<open>is_select\<close>); \<^verbatim>\<open>_handle_mongodb\<close> compares it as received. On the document
  store the operation \<^verbatim>\<open>FIND\<close> is answered with the error envelope of an unsupported
  operation, while \<^verbatim>\<open>find\<close> runs the find on the named collection and returns the
  documents with their identifiers as strings.
\<close>

theorem mongodb_find_is_case_sensitive:
  "fst (receive_client_request (ex_server all_modules)
          (ex_env all_modules (Inr ''1700000000.0'') ex_rows)
          [(''db_type'', PStr ''mongodb''), (''operation'', PStr ''FIND''),
           (''parameters'', PDict [(''collection'', PStr ''people'')])] empty_world)
     = Inr (PDict [(''status'', PStr ''error''),
                   (''error'', PStr ''Unsupported MongoDB operation: FIND''),
                   (''timestamp'', PStr ''1700000000.0'')])
   \<and> fst (receive_client_request (ex_server all_modules)
          (ex_env all_modules (Inr ''1700000000.0'') ex_rows)
          [(''db_type'', PStr ''mongodb''), (''operation'', PStr ''find''),
           (''parameters'', PDict [(''collection'', PStr ''people'')])] empty_world)
     = Inr (PDict [(''status'', PStr ''success''),
                   (''data'', PList [PDict [(''_id'', PStr ''65f0c0ffee''),
                                            (''name'', PStr ''ada'')]]),
                   (''from_cache'', PBool False),
                   (''timestamp'', PStr ''1700000000.0'')])"
  by (simp add: gateway_defs handle_mongodb_def stringify_id_def io_defs ex_defs str_defs)

end
